theory Spec2Isabelle
  imports Main "HOL-Library.Word"
begin

unbundle bit_operations_syntax

section \<open>JavaScript strings\<close>

text \<open>
  A JavaScript string is a sequence of UTF-16 code units; \<open>charCodeAt\<close>, \<open>replace\<close>
  with a non-unicode regular expression, \<open>split\<close> and \<open>length\<close> all work on code units.
  The literals of the program are ASCII and are written through \<open>js\<close>.
\<close>

type_synonym code_unit = "16 word"
type_synonym jsstring = "code_unit list"

definition js :: "string \<Rightarrow> jsstring" where
  "js s = map (\<lambda>c. of_nat (of_char c)) s"

definition is_upper :: "code_unit \<Rightarrow> bool" where
  "is_upper c = (65 \<le> c \<and> c \<le> 90)"

definition is_lower :: "code_unit \<Rightarrow> bool" where
  "is_lower c = (97 \<le> c \<and> c \<le> 122)"

definition is_digit :: "code_unit \<Rightarrow> bool" where
  "is_digit c = (48 \<le> c \<and> c \<le> 57)"

text \<open>The character class \<open>[A-Za-z0-9_-]\<close>: letters, digits, underscore (95), hyphen (45).\<close>

definition is_dbus_char :: "code_unit \<Rightarrow> bool" where
  "is_dbus_char c = (is_upper c \<or> is_lower c \<or> is_digit c \<or> c = 95 \<or> c = 45)"

section \<open>Name sanitizer\<close>

text \<open>
  \<^verbatim>\<open>
  function sanitizeForDBus(displayName) {
      let sanitized = displayName.replace(/[^A-Za-z0-9_-]/g, '_');
      if (/^[0-9]/.test(sanitized)) {
          sanitized = 'zone_' + sanitized;
      }
      return sanitized || 'unnamed_zone';
  }
  \<close>
  The global replace substitutes every code unit outside the class by an underscore; the
  test looks at the first code unit only; the empty string is the only falsy string.
\<close>

definition starts_with_digit :: "jsstring \<Rightarrow> bool" where
  "starts_with_digit s = (case s of [] \<Rightarrow> False | c # _ \<Rightarrow> is_digit c)"

definition sanitizeForDBus :: "jsstring \<Rightarrow> jsstring" where
  "sanitizeForDBus displayName =
     (let sanitized = map (\<lambda>c. if is_dbus_char c then c else 95) displayName;
          sanitized = (if starts_with_digit sanitized then js ''zone_'' @ sanitized else sanitized)
      in if sanitized = [] then js ''unnamed_zone'' else sanitized)"

text \<open>A string matches \<open>^[A-Za-z0-9_-]+$\<close> when it is not empty and all its code units are in the class.\<close>

definition matches_dbus_name :: "jsstring \<Rightarrow> bool" where
  "matches_dbus_name s = (s \<noteq> [] \<and> list_all is_dbus_char s)"

section \<open>JavaScript values and numbers\<close>

text \<open>
  The values that reach the metadata mapping and the position getter. Numbers are the whole
  numbers the upstream protocol reports (seconds, sample rates); every product and sum the
  program forms on them stays far inside the range where double arithmetic is exact.
  \<open>NaN\<close> is what arithmetic on \<open>undefined\<close> gives.
\<close>

datatype jsval = Undefined | NaN | Num int | Str jsstring | StrList "jsstring list"

text \<open>Truthiness, as \<open>if (v)\<close> and \<open>v || w\<close> read it.\<close>

fun truthy :: "jsval \<Rightarrow> bool" where
  "truthy Undefined = False"
| "truthy NaN = False"
| "truthy (Num n) = (n \<noteq> 0)"
| "truthy (Str s) = (s \<noteq> [])"
| "truthy (StrList _) = True"

text \<open>An optional property read as a value: an absent one is \<open>undefined\<close>.\<close>

definition num_prop :: "int option \<Rightarrow> jsval" where
  "num_prop p = (case p of None \<Rightarrow> Undefined | Some n \<Rightarrow> Num n)"

definition str_prop :: "jsstring option \<Rightarrow> jsval" where
  "str_prop p = (case p of None \<Rightarrow> Undefined | Some s \<Rightarrow> Str s)"

text \<open>The product \<open>a * b\<close> of a number or \<open>undefined\<close> with a number.\<close>

fun js_times :: "jsval \<Rightarrow> jsval \<Rightarrow> jsval" where
  "js_times (Num a) (Num b) = Num (a * b)"
| "js_times _ _ = NaN"

text \<open>A string property inside a template literal: \<open>undefined\<close> prints as its name.\<close>

definition template_str :: "jsstring option \<Rightarrow> jsstring" where
  "template_str p = (case p of None \<Rightarrow> js ''undefined'' | Some s \<Rightarrow> s)"

text \<open>\<open>x || ''\<close> on an optional string property.\<close>

definition or_empty :: "jsstring option \<Rightarrow> jsstring" where
  "or_empty p = (case p of None \<Rightarrow> [] | Some s \<Rightarrow> s)"

subsection \<open>32-bit integer operators\<close>

text \<open>
  The bitwise operators convert their operands with ToInt32 (the value modulo \<open>2^32\<close>, read
  as two's complement); \<open>>>> 0\<close> converts with ToUint32.
\<close>

definition ToInt32 :: "int \<Rightarrow> int" where
  "ToInt32 x = (let m = x mod 2 ^ 32 in if 2 ^ 31 \<le> m then m - 2 ^ 32 else m)"

definition ToUint32 :: "int \<Rightarrow> int" where
  "ToUint32 x = x mod 2 ^ 32"

definition js_shl :: "int \<Rightarrow> nat \<Rightarrow> int" where
  "js_shl x n = ToInt32 (ToInt32 x * 2 ^ (n mod 32))"

definition js_and :: "int \<Rightarrow> int \<Rightarrow> int" where
  "js_and a b = ToInt32 a AND ToInt32 b"

text \<open>
  \<open>Number.prototype.toString(16)\<close> on a non-negative whole number: lower-case digits, most
  significant first, no leading zero and no padding. The program applies it to the result
  of \<open>>>> 0\<close> only, which is never negative.
\<close>

definition hex_digit :: "int \<Rightarrow> code_unit" where
  "hex_digit d = (if d < 10 then of_int (48 + d) else of_int (87 + d))"

function toString16 :: "int \<Rightarrow> jsstring" where
  "toString16 n = (if n < 16 then [hex_digit n] else toString16 (n div 16) @ [hex_digit (n mod 16)])"
  by pat_completeness auto
termination
  by (relation "measure nat") auto

declare toString16.simps [simp del]

section \<open>Data model\<close>

text \<open>
  A zone as the upstream transport delivers it. Properties the program reads defensively
  (\<open>?.\<close>, \<open>||\<close>, a truthiness test) are optional; the quality attributes are undocumented and
  may hold any value.
\<close>

record three_line_obj =
  line1 :: "jsstring option"
  line2 :: "jsstring option"
  line3 :: "jsstring option"

record now_playing_obj =
  three_line :: "three_line_obj option"
  length_np :: "int option"
  seek_position :: "int option"
  image_key :: "jsstring option"
  sample_rate :: jsval
  bit_depth :: jsval
  bitrate :: jsval
  format :: jsval
  media_format :: jsval
  source_type :: jsval

record source_control_obj =
  source_sample_rate :: jsval

record output_obj =
  source_controls :: "source_control_obj list"

record zone_obj =
  zone_id :: jsstring
  display_name :: jsstring
  state :: jsstring
  is_next_allowed :: bool
  is_previous_allowed :: bool
  is_pause_allowed :: bool
  is_seek_allowed :: bool
  now_playing :: "now_playing_obj option"
  outputs :: "output_obj list"

text \<open>
  The player object of the desktop interface. The properties the program assigns are
  \<open>None\<close> until it assigns them; \<open>seeked\<close> collects the positions passed to the
  \<open>seeked\<close> notification emitter, oldest first.
\<close>

record player_obj =
  name :: jsstring
  identity :: jsstring
  supportedUriSchemes :: "jsstring list"
  supportedMimeTypes :: "jsstring list"
  supportedInterfaces :: "jsstring list"
  metadata :: "(string \<times> jsval) list option"
  playbackStatus :: "jsstring option"
  canGoNext :: "bool option"
  canGoPrevious :: "bool option"
  canPause :: "bool option"
  canSeek :: "bool option"
  position :: "int option"
  seeked :: "int list"

record player_context =
  player :: player_obj
  zone :: zone_obj
  sanitizedName :: jsstring
  wsUrl :: jsstring
  lastReportedPosition :: int

datatype error = TypeError

section \<open>Track identity\<close>

text \<open>
  \<^verbatim>\<open>
  function generateTrackId(player, zoneId, nowPlaying) {
      const title = nowPlaying.three_line?.line1 || '';
      const artist = nowPlaying.three_line?.line2 || '';
      const album = nowPlaying.three_line?.line3 || '';
      const combined = `${title}|${artist}|${album}`;
      let hash = 0;
      for (let i = 0; i < combined.length; i++) {
          const char = combined.charCodeAt(i);
          hash = ((hash << 5) - hash) + char;
          hash = hash & hash; // Convert to 32-bit integer
      }
      const hashStr = (hash >>> 0).toString(16);
      return player.objectPath(`track/${zoneId}_${hashStr}`);
  }
  \<close>
  \<open>objectPath\<close> is a method of the player library; it is a parameter of the model.
\<close>

definition track_title :: "now_playing_obj \<Rightarrow> jsstring" where
  "track_title nowPlaying = (case three_line nowPlaying of None \<Rightarrow> [] | Some t \<Rightarrow> or_empty (line1 t))"

definition track_artist :: "now_playing_obj \<Rightarrow> jsstring" where
  "track_artist nowPlaying = (case three_line nowPlaying of None \<Rightarrow> [] | Some t \<Rightarrow> or_empty (line2 t))"

definition track_album :: "now_playing_obj \<Rightarrow> jsstring" where
  "track_album nowPlaying = (case three_line nowPlaying of None \<Rightarrow> [] | Some t \<Rightarrow> or_empty (line3 t))"

text \<open>The loop over the code units of \<open>combined\<close>, from the hash reached so far.\<close>

fun hash_loop :: "int \<Rightarrow> jsstring \<Rightarrow> int" where
  "hash_loop hash [] = hash"
| "hash_loop hash (c # cs) =
     (let char = uint c;
          hash = (js_shl hash 5 - hash) + char;
          hash = js_and hash hash
      in hash_loop hash cs)"

definition track_hashStr :: "jsstring \<Rightarrow> jsstring \<Rightarrow> jsstring \<Rightarrow> jsstring" where
  "track_hashStr title artist album =
     (let combined = title @ js ''|'' @ artist @ js ''|'' @ album;
          hash = hash_loop 0 combined
      in toString16 (ToUint32 hash))"

definition generateTrackId ::
  "(player_obj \<Rightarrow> jsstring \<Rightarrow> jsstring) \<Rightarrow> player_obj \<Rightarrow> jsstring \<Rightarrow> now_playing_obj \<Rightarrow> jsstring" where
  "generateTrackId objectPath p zoneId nowPlaying =
     (let hashStr = track_hashStr (track_title nowPlaying) (track_artist nowPlaying) (track_album nowPlaying)
      in objectPath p (js ''track/'' @ zoneId @ js ''_'' @ hashStr))"

section \<open>Full-state projection\<close>

subsection \<open>Splitting the artist line\<close>

text \<open>
  \<open>line2.split(/\s+\/\s+/)\<close>. The class \<open>\s\<close> is the white space and line terminator
  code units of ECMAScript.
\<close>

definition is_space :: "code_unit \<Rightarrow> bool" where
  "is_space c = ((9 \<le> c \<and> c \<le> 13) \<or> c = 32 \<or> c = 160 \<or> c = 5760 \<or> (8192 \<le> c \<and> c \<le> 8202)
     \<or> c = 8232 \<or> c = 8233 \<or> c = 8239 \<or> c = 8287 \<or> c = 12288 \<or> c = 65279)"

text \<open>
  A match of \<open>\s+\/\s+\<close> that starts at the head of the string, giving what follows the
  match. Both \<open>\s+\<close> are greedy and a slash (47) is no white space, so the match takes the
  whole run of white space on either side and giving some of it back cannot help.
\<close>

fun match_separator :: "jsstring \<Rightarrow> jsstring option" where
  "match_separator [] = None"
| "match_separator (c # cs) =
     (if \<not> is_space c then None
      else case dropWhile is_space cs of
             [] \<Rightarrow> None
           | d # ds \<Rightarrow>
               if d \<noteq> 47 then None
               else (case ds of
                       [] \<Rightarrow> None
                     | e # es \<Rightarrow> if is_space e then Some (dropWhile is_space es) else None))"

lemma match_separator_shorter: "match_separator s = Some r \<Longrightarrow> length r < length s"
proof (cases s)
  case Nil
  assume "match_separator s = Some r"
  with Nil show ?thesis by simp
next
  case (Cons c cs)
  assume m: "match_separator s = Some r"
  have a: "length (dropWhile is_space cs) \<le> length cs"
    by (rule length_dropWhile_le)
  from m Cons obtain d ds e es where
    d: "dropWhile is_space cs = d # ds" and e: "ds = e # es" and r: "r = dropWhile is_space es"
    by (auto split: if_splits list.splits)
  have "length r \<le> length es"
    unfolding r by (rule length_dropWhile_le)
  with a d e Cons show ?thesis by simp
qed

text \<open>
  \<open>split\<close> looks for the leftmost match from the end of the previous one; \<open>cur\<close> is the
  piece collected since then. The separator never matches the empty string, so an empty
  input gives one empty piece.
\<close>

function split_loop :: "jsstring \<Rightarrow> jsstring \<Rightarrow> jsstring list" where
  "split_loop cur [] = [cur]"
| "split_loop cur (c # cs) =
     (case match_separator (c # cs) of
        Some rest \<Rightarrow> cur # split_loop [] rest
      | None \<Rightarrow> split_loop (cur @ [c]) cs)"
  by pat_completeness auto
termination
  by (relation "measure (\<lambda>(cur, s). length s)")
    (auto simp del: match_separator.simps dest!: match_separator_shorter)

definition split_artists :: "jsstring \<Rightarrow> jsstring list" where
  "split_artists s = split_loop [] s"

subsection \<open>Playback status\<close>

text \<open>
  \<open>zone.state.charAt(0).toUpperCase() + zone.state.slice(1)\<close>. The upstream state tokens
  are lower-case ASCII words; \<open>toUpperCase\<close> is modelled on ASCII, where it moves
  \<open>a\<close>..\<open>z\<close> to \<open>A\<close>..\<open>Z\<close> and leaves every other code unit as it is.
\<close>

definition toUpperCase_ascii :: "code_unit \<Rightarrow> code_unit" where
  "toUpperCase_ascii c = (if is_lower c then c - 32 else c)"

definition capitalize :: "jsstring \<Rightarrow> jsstring" where
  "capitalize s = (case s of [] \<Rightarrow> [] | c # cs \<Rightarrow> toUpperCase_ascii c # cs)"

subsection \<open>Metadata\<close>

text \<open>
  The metadata object is a list of properties in insertion order; assigning a property
  replaces its value where it stands, or appends it.
\<close>

fun set_prop :: "string \<Rightarrow> jsval \<Rightarrow> (string \<times> jsval) list \<Rightarrow> (string \<times> jsval) list" where
  "set_prop k v [] = [(k, v)]"
| "set_prop k v ((k', v') # m) = (if k' = k then (k, v) # m else (k', v') # set_prop k v m)"

definition set_if_truthy :: "string \<Rightarrow> jsval \<Rightarrow> (string \<times> jsval) list \<Rightarrow> (string \<times> jsval) list" where
  "set_if_truthy k v m = (if truthy v then set_prop k v m else m)"

text \<open>
  The object literal of \<open>updatePlayerFromZone\<close>. Reading \<open>line1\<close> of an absent
  \<open>three_line\<close>, or calling \<open>split\<close> on an absent \<open>line2\<close>, throws a TypeError; the
  track identifier, the length and the artwork URL are evaluated before and cannot throw.
\<close>

definition base_metadata ::
  "jsstring \<Rightarrow> jsstring \<Rightarrow> now_playing_obj \<Rightarrow> error + (string \<times> jsval) list" where
  "base_metadata trackId ws np =
     (let len = (case length_np np of None \<Rightarrow> Num 0 | Some n \<Rightarrow> if n \<noteq> 0 then Num (n * 1000000) else Num 0);
          artUrl = js ''http://'' @ ws @ js ''/image/'' @ template_str (image_key np)
      in case three_line np of
           None \<Rightarrow> Inl TypeError
         | Some t \<Rightarrow>
             (case line2 t of
                None \<Rightarrow> Inl TypeError
              | Some artist \<Rightarrow>
                  Inr [(''mpris:trackid'', Str trackId),
                       (''mpris:length'', len),
                       (''mpris:artUrl'', Str artUrl),
                       (''xesam:title'', str_prop (line1 t)),
                       (''xesam:album'', str_prop (line3 t)),
                       (''xesam:artist'', StrList (split_artists artist))]))"

text \<open>The conditional quality attributes, under the \<open>roon:\<close> prefix.\<close>

definition quality_metadata :: "now_playing_obj \<Rightarrow> (string \<times> jsval) list \<Rightarrow> (string \<times> jsval) list" where
  "quality_metadata np m =
     (let m = set_if_truthy ''roon:sampleRate'' (sample_rate np) m;
          m = set_if_truthy ''roon:bitDepth'' (bit_depth np) m;
          m = set_if_truthy ''roon:bitrate'' (bitrate np) m;
          m = set_if_truthy ''roon:format'' (if truthy (format np) then format np else media_format np) m;
          m = set_if_truthy ''roon:sourceType'' (source_type np) m
      in m)"

definition output_metadata :: "output_obj list \<Rightarrow> (string \<times> jsval) list \<Rightarrow> (string \<times> jsval) list" where
  "output_metadata outs m =
     (case outs of
        [] \<Rightarrow> m
      | out # _ \<Rightarrow>
          (case source_controls out of
             [] \<Rightarrow> m
           | source # _ \<Rightarrow> set_if_truthy ''roon:outputSampleRate'' (source_sample_rate source) m))"

text \<open>
  \<^verbatim>\<open>
  function updatePlayerFromZone(context) {
      const { player, zone, wsUrl } = context;
      const now_playing = zone.now_playing;
      if (now_playing) {
          const trackId = generateTrackId(player, zone.zone_id, now_playing);
          const metadata = { ... };
          ...
          player.metadata = metadata;
      }
      player.playbackStatus = zone.state.charAt(0).toUpperCase() + zone.state.slice(1);
      player.canGoNext = zone.is_next_allowed;
      player.canGoPrevious = zone.is_previous_allowed;
      player.canPause = zone.is_pause_allowed;
      player.canSeek = zone.is_seek_allowed;
  }
  \<close>
  The player is assigned to only after the metadata object is complete, so a throw leaves
  the context as it was: the result is the error, or the context with the updated player.
\<close>

definition updatePlayerFromZone ::
  "(player_obj \<Rightarrow> jsstring \<Rightarrow> jsstring) \<Rightarrow> player_context \<Rightarrow> error + player_context" where
  "updatePlayerFromZone objectPath context =
     (let p = player context; z = zone context;
          r = (case now_playing z of
                 None \<Rightarrow> Inr p
               | Some np \<Rightarrow>
                   (let trackId = generateTrackId objectPath p (zone_id z) np
                    in case base_metadata trackId (wsUrl context) np of
                         Inl e \<Rightarrow> Inl e
                       | Inr m \<Rightarrow> Inr (p\<lparr>metadata := Some (output_metadata (outputs z) (quality_metadata np m))\<rparr>)))
      in case r of
           Inl e \<Rightarrow> Inl e
         | Inr p \<Rightarrow>
             Inr (context\<lparr>player := p\<lparr>playbackStatus := Some (capitalize (state z)),
                                        canGoNext := Some (is_next_allowed z),
                                        canGoPrevious := Some (is_previous_allowed z),
                                        canPause := Some (is_pause_allowed z),
                                        canSeek := Some (is_seek_allowed z)\<rparr>\<rparr>))"

text \<open>
  The earlier revision of the program (\<open>index.js\<close>) builds the metadata without a track
  identifier and without quality attributes:
  \<^verbatim>\<open>
      if (now_playing) {
          player.metadata = {
              'mpris:length': now_playing.length ? now_playing.length * 1000 * 1000 : 0,
              'mpris:artUrl': `http://${wsUrl}/image/${now_playing.image_key}`,
              'xesam:title': now_playing.three_line.line1,
              'xesam:album': now_playing.three_line.line3,
              'xesam:artist': now_playing.three_line.line2.split(/\s+\/\s+/),
          };
      }
  \<close>
\<close>

definition base_metadata_v1 :: "jsstring \<Rightarrow> now_playing_obj \<Rightarrow> error + (string \<times> jsval) list" where
  "base_metadata_v1 ws np =
     (let len = (case length_np np of None \<Rightarrow> Num 0 | Some n \<Rightarrow> if n \<noteq> 0 then Num (n * 1000 * 1000) else Num 0);
          artUrl = js ''http://'' @ ws @ js ''/image/'' @ template_str (image_key np)
      in case three_line np of
           None \<Rightarrow> Inl TypeError
         | Some t \<Rightarrow>
             (case line2 t of
                None \<Rightarrow> Inl TypeError
              | Some artist \<Rightarrow>
                  Inr [(''mpris:length'', len),
                       (''mpris:artUrl'', Str artUrl),
                       (''xesam:title'', str_prop (line1 t)),
                       (''xesam:album'', str_prop (line3 t)),
                       (''xesam:artist'', StrList (split_artists artist))]))"

definition updatePlayerFromZone_v1 :: "player_context \<Rightarrow> error + player_context" where
  "updatePlayerFromZone_v1 context =
     (let p = player context; z = zone context;
          r = (case now_playing z of
                 None \<Rightarrow> Inr p
               | Some np \<Rightarrow>
                   (case base_metadata_v1 (wsUrl context) np of
                      Inl e \<Rightarrow> Inl e
                    | Inr m \<Rightarrow> Inr (p\<lparr>metadata := Some m\<rparr>)))
      in case r of
           Inl e \<Rightarrow> Inl e
         | Inr p \<Rightarrow>
             Inr (context\<lparr>player := p\<lparr>playbackStatus := Some (capitalize (state z)),
                                        canGoNext := Some (is_next_allowed z),
                                        canGoPrevious := Some (is_previous_allowed z),
                                        canPause := Some (is_pause_allowed z),
                                        canSeek := Some (is_seek_allowed z)\<rparr>\<rparr>))"

section \<open>Player contexts\<close>

text \<open>
  \<^verbatim>\<open>
  function createPlayerContext(zone, wsUrl) {
      const sanitizedName = `roon_${sanitizeForDBus(zone.display_name)}`;
      const player = Player({
          name: sanitizedName,
          identity: `Roon - ${zone.display_name}`,
          supportedUriSchemes: ['file'],
          supportedMimeTypes: ['audio/mpeg', 'application/ogg'],
          supportedInterfaces: ['player']
      });
      setupPlayerEvents(player, zone.zone_id);
      return { player: player, zone: zone, sanitizedName: sanitizedName,
               wsUrl: wsUrl, lastReportedPosition: 0 };
  }
  \<close>
  The handlers that \<open>setupPlayerEvents\<close> installs are the functions \<open>getPosition\<close>,
  \<open>on_seek\<close> and \<open>on_position\<close> below, applied to the zone identifier.
\<close>

definition createPlayerContext :: "zone_obj \<Rightarrow> jsstring \<Rightarrow> player_context" where
  "createPlayerContext z ws =
     (let sanitized = js ''roon_'' @ sanitizeForDBus (display_name z)
      in \<lparr>player = \<lparr>name = sanitized,
                     identity = js ''Roon - '' @ display_name z,
                     supportedUriSchemes = [js ''file''],
                     supportedMimeTypes = [js ''audio/mpeg'', js ''application/ogg''],
                     supportedInterfaces = [js ''player''],
                     metadata = None, playbackStatus = None,
                     canGoNext = None, canGoPrevious = None, canPause = None, canSeek = None,
                     position = None, seeked = []\<rparr>,
          zone = z,
          sanitizedName = sanitized,
          wsUrl = ws,
          lastReportedPosition = 0\<rparr>)"

section \<open>The bridge state\<close>

text \<open>
  The module-level state is \<open>core\<close> and \<open>zonePlayerMap\<close>. \<open>ws_url\<close> is the address
  \<open>core.moo.transport.ws._url\<close>, absent when \<open>moo\<close>, \<open>transport\<close> or \<open>ws\<close> is;
  a web socket always has its address. What the program
  does to its collaborators is recorded beside them, oldest first: the players it
  constructed (zone identifier and bus name), the players whose bus connection it closed,
  the seek calls it issued upstream, and the lines it wrote to the console. The debug
  option is off, as by default, so \<open>debugLogZone\<close> returns at once and writes nothing.
\<close>

record core_obj =
  ws_url :: "jsstring option"

datatype seek_mode = relative | absolute

text \<open>
  An upstream seek call: the zone snapshot passed, the mode, and the amount. The program
  passes the amount in seconds, \<open>micros / 1000000\<close>; the record keeps the dividend.
\<close>

datatype upstream_call = Seek zone_obj seek_mode int

datatype log_line =
    Creating_player jsstring
  | Removing_player jsstring
  | Detected_seek jsstring int
  | Seek_ignored "jsstring option"
  | SetPosition_ignored "jsstring option"
  | Seek_not_allowed jsstring
  | Seek_relative jsstring int
  | Seek_absolute jsstring int

record bridge =
  core :: "core_obj option"
  zonePlayerMap :: "jsstring \<rightharpoonup> player_context"
  constructed :: "(jsstring \<times> jsstring) list"
  disconnected :: "jsstring list"
  upstream :: "upstream_call list"
  console :: "log_line list"

section \<open>Command router\<close>

text \<open>
  \<^verbatim>\<open>
  player.getPosition = function() {
      const context = zonePlayerMap.get(zoneId);
      if (context && context.zone && context.zone.now_playing) {
          return context.zone.now_playing.seek_position * 1000 * 1000;
      }
      return 0;
  };
  \<close>
\<close>

definition getPosition :: "bridge \<Rightarrow> jsstring \<Rightarrow> jsval" where
  "getPosition b zoneId =
     (case zonePlayerMap b zoneId of
        None \<Rightarrow> Num 0
      | Some context \<Rightarrow>
          (case now_playing (zone context) of
             None \<Rightarrow> Num 0
           | Some np \<Rightarrow> js_times (js_times (num_prop (seek_position np)) (Num 1000)) (Num 1000)))"

text \<open>
  \<^verbatim>\<open>
  player.on('seek', (offset) => {
      const context = zonePlayerMap.get(zoneId);
      if (!context || !core) {
          console.log(`Zone "${context?.zone?.display_name}": Seek ignored - no context/core`);
          return;
      }
      if (!context.zone.is_seek_allowed) {
          console.log(`Zone "${context.zone.display_name}": Seek not allowed`);
          return;
      }
      const offsetSeconds = offset / 1000000;
      console.log(`Zone "${context.zone.display_name}": Seek relative ${offsetSeconds}s`);
      core.services.RoonApiTransport.seek(context.zone, 'relative', offsetSeconds, (err) => {
          if (err) { console.error(...); }
          else { ...; player.seeked(newPosMicro); }
      });
  });
  \<close>
  The handler itself emits no notification: \<open>player.seeked\<close> is called only from the
  completion callback handed to the upstream seek call, so only a call that was issued
  can lead to one.
\<close>

definition on_seek :: "bridge \<Rightarrow> jsstring \<Rightarrow> int \<Rightarrow> bridge" where
  "on_seek b zoneId offset =
     (case zonePlayerMap b zoneId of
        None \<Rightarrow> b\<lparr>console := console b @ [Seek_ignored None]\<rparr>
      | Some context \<Rightarrow>
          if core b = None then
            b\<lparr>console := console b @ [Seek_ignored (Some (display_name (zone context)))]\<rparr>
          else if \<not> is_seek_allowed (zone context) then
            b\<lparr>console := console b @ [Seek_not_allowed (display_name (zone context))]\<rparr>
          else
            b\<lparr>console := console b @ [Seek_relative (display_name (zone context)) offset],
              upstream := upstream b @ [Seek (zone context) relative offset]\<rparr>)"

text \<open>
  \<^verbatim>\<open>
  player.on('position', (event) => {
      const context = zonePlayerMap.get(zoneId);
      if (!context || !core) {
          console.log(`Zone "${context?.zone?.display_name}": SetPosition ignored - no context/core`);
          return;
      }
      if (!context.zone.is_seek_allowed) {
          console.log(`Zone "${context.zone.display_name}": Seek not allowed`);
          return;
      }
      const positionSeconds = event.position / 1000000;
      console.log(`Zone "${context.zone.display_name}": Seek absolute to ${positionSeconds}s`);
      core.services.RoonApiTransport.seek(context.zone, 'absolute', positionSeconds, (err) => {
          if (err) { console.error(...); }
          else { player.seeked(event.position); }
      });
  });
  \<close>
  \<open>event_position\<close> is the \<open>position\<close> property of the event.
\<close>

definition on_position :: "bridge \<Rightarrow> jsstring \<Rightarrow> int \<Rightarrow> bridge" where
  "on_position b zoneId event_position =
     (case zonePlayerMap b zoneId of
        None \<Rightarrow> b\<lparr>console := console b @ [SetPosition_ignored None]\<rparr>
      | Some context \<Rightarrow>
          if core b = None then
            b\<lparr>console := console b @ [SetPosition_ignored (Some (display_name (zone context)))]\<rparr>
          else if \<not> is_seek_allowed (zone context) then
            b\<lparr>console := console b @ [Seek_not_allowed (display_name (zone context))]\<rparr>
          else
            b\<lparr>console := console b @ [Seek_absolute (display_name (zone context)) event_position],
              upstream := upstream b @ [Seek (zone context) absolute event_position]\<rparr>)"

section \<open>Projection engine\<close>

text \<open>
  The callback registered with \<open>subscribe_zones\<close>. A throw inside it leaves the callback
  at once with the state reached so far, so each branch gives the state and the error,
  if any. \<open>for_of\<close> is a \<open>for (const x of xs)\<close> loop whose body may throw.
\<close>

fun for_of :: "(bridge \<Rightarrow> 'a \<Rightarrow> bridge \<times> error option) \<Rightarrow> bridge \<Rightarrow> 'a list \<Rightarrow> bridge \<times> error option" where
  "for_of body b [] = (b, None)"
| "for_of body b (x # xs) =
     (case body b x of
        (b', Some e) \<Rightarrow> (b', Some e)
      | (b', None) \<Rightarrow> for_of body b' xs)"

record seek_change =
  change_zone_id :: jsstring
  change_seek_position :: int

record zones_data =
  zones :: "zone_obj list option"
  zones_added :: "zone_obj list option"
  zones_changed :: "zone_obj list option"
  zones_removed :: "jsstring list option"
  zones_seek_changed :: "seek_change list option"

text \<open>
  \<^verbatim>\<open>
  for (const zone of zonesToAdd) {
      debugLogZone(`New Zone: ${zone.display_name}`, zone);
      if (!zonePlayerMap.has(zone.zone_id)) {
          console.log(`Creating MPRIS player for zone: ${zone.display_name}`);
          const context = createPlayerContext(zone, wsUrl);
          zonePlayerMap.set(zone.zone_id, context);
          updatePlayerFromZone(context);
      }
  }
  \<close>
  The context is in the map before the projection runs, and stays there if it throws.
\<close>

definition add_zone ::
  "(player_obj \<Rightarrow> jsstring \<Rightarrow> jsstring) \<Rightarrow> jsstring \<Rightarrow> bridge \<Rightarrow> zone_obj \<Rightarrow> bridge \<times> error option" where
  "add_zone objectPath ws b z =
     (if zonePlayerMap b (zone_id z) \<noteq> None then (b, None)
      else
        (let context = createPlayerContext z ws;
             b = b\<lparr>console := console b @ [Creating_player (display_name z)],
                   constructed := constructed b @ [(zone_id z, name (player context))],
                   zonePlayerMap := (zonePlayerMap b)(zone_id z \<mapsto> context)\<rparr>
         in case updatePlayerFromZone objectPath context of
              Inl e \<Rightarrow> (b, Some e)
            | Inr context \<Rightarrow> (b\<lparr>zonePlayerMap := (zonePlayerMap b)(zone_id z \<mapsto> context)\<rparr>, None)))"

definition onZonesAdded ::
  "(player_obj \<Rightarrow> jsstring \<Rightarrow> jsstring) \<Rightarrow> jsstring \<Rightarrow> bridge \<Rightarrow> zone_obj list \<Rightarrow> bridge \<times> error option" where
  "onZonesAdded objectPath ws b zonesToAdd = for_of (add_zone objectPath ws) b zonesToAdd"

text \<open>
  \<^verbatim>\<open>
  for (const zone of data.zones_changed) {
      const context = zonePlayerMap.get(zone.zone_id);
      if (context) {
          ...
          context.zone = zone;
          updatePlayerFromZone(context);
      }
  }
  \<close>
\<close>

definition change_zone ::
  "(player_obj \<Rightarrow> jsstring \<Rightarrow> jsstring) \<Rightarrow> bridge \<Rightarrow> zone_obj \<Rightarrow> bridge \<times> error option" where
  "change_zone objectPath b z =
     (case zonePlayerMap b (zone_id z) of
        None \<Rightarrow> (b, None)
      | Some context \<Rightarrow>
          (let context = context\<lparr>zone := z\<rparr>;
               b = b\<lparr>zonePlayerMap := (zonePlayerMap b)(zone_id z \<mapsto> context)\<rparr>
           in case updatePlayerFromZone objectPath context of
                Inl e \<Rightarrow> (b, Some e)
              | Inr context \<Rightarrow> (b\<lparr>zonePlayerMap := (zonePlayerMap b)(zone_id z \<mapsto> context)\<rparr>, None)))"

definition onZonesChanged ::
  "(player_obj \<Rightarrow> jsstring \<Rightarrow> jsstring) \<Rightarrow> bridge \<Rightarrow> zone_obj list \<Rightarrow> bridge \<times> error option" where
  "onZonesChanged objectPath b zs = for_of (change_zone objectPath) b zs"

text \<open>
  \<^verbatim>\<open>
  function destroyPlayerContext(context) {
      if (context.player && context.player._bus) {
          context.player._bus.disconnect();
      }
  }
  ...
  for (const zoneId of data.zones_removed) {
      const context = zonePlayerMap.get(zoneId);
      if (context) {
          console.log(`Removing MPRIS player for zone: ${context.zone.display_name}`);
          destroyPlayerContext(context);
          zonePlayerMap.delete(zoneId);
      }
  }
  \<close>
  A constructed player always has its bus connection.
\<close>

definition destroyPlayerContext :: "bridge \<Rightarrow> player_context \<Rightarrow> bridge" where
  "destroyPlayerContext b context = b\<lparr>disconnected := disconnected b @ [name (player context)]\<rparr>"

definition remove_zone :: "bridge \<Rightarrow> jsstring \<Rightarrow> bridge" where
  "remove_zone b zoneId =
     (case zonePlayerMap b zoneId of
        None \<Rightarrow> b
      | Some context \<Rightarrow>
          (let b = b\<lparr>console := console b @ [Removing_player (display_name (zone context))]\<rparr>;
               b = destroyPlayerContext b context
           in b\<lparr>zonePlayerMap := (zonePlayerMap b)(zoneId := None)\<rparr>))"

definition onZonesRemoved :: "bridge \<Rightarrow> jsstring list \<Rightarrow> bridge" where
  "onZonesRemoved b zoneIds = foldl remove_zone b zoneIds"

text \<open>
  \<^verbatim>\<open>
  for (const change of data.zones_seek_changed) {
      const context = zonePlayerMap.get(change.zone_id);
      if (context) {
          const positionMicro = change.seek_position * 1000000;
          const expectedPosition = context.lastReportedPosition + 1500000; // +1.5s tolerance
          const positionDelta = Math.abs(positionMicro - expectedPosition);
          const isSeek = positionDelta > 2000000; // >2s delta = likely a seek
          context.lastReportedPosition = positionMicro;
          context.player.position = positionMicro;
          if (isSeek) {
              console.log(`Zone "${context.zone.display_name}": Detected seek to ${change.seek_position}s`);
              context.player.seeked(positionMicro);
          }
      }
  }
  \<close>
\<close>

definition seek_changed :: "bridge \<Rightarrow> seek_change \<Rightarrow> bridge" where
  "seek_changed b change =
     (case zonePlayerMap b (change_zone_id change) of
        None \<Rightarrow> b
      | Some context \<Rightarrow>
          (let positionMicro = change_seek_position change * 1000000;
               expectedPosition = lastReportedPosition context + 1500000;
               positionDelta = \<bar>positionMicro - expectedPosition\<bar>;
               isSeek = (positionDelta > 2000000);
               context = context\<lparr>lastReportedPosition := positionMicro\<rparr>;
               context = context\<lparr>player := (player context)\<lparr>position := Some positionMicro\<rparr>\<rparr>
           in if isSeek then
                b\<lparr>console := console b @ [Detected_seek (display_name (zone context)) (change_seek_position change)],
                  zonePlayerMap := (zonePlayerMap b)(change_zone_id change \<mapsto>
                    context\<lparr>player := (player context)\<lparr>seeked := seeked (player context) @ [positionMicro]\<rparr>\<rparr>)\<rparr>
              else
                b\<lparr>zonePlayerMap := (zonePlayerMap b)(change_zone_id change \<mapsto> context)\<rparr>))"

definition onZonesSeekChanged :: "bridge \<Rightarrow> seek_change list \<Rightarrow> bridge" where
  "onZonesSeekChanged b changes = foldl seek_changed b changes"

text \<open>
  \<^verbatim>\<open>
  transport.subscribe_zones(function(cmd, data) {
      if (!core || !core.moo || !core.moo.transport || !core.moo.transport.ws) {
          return;
      }
      const wsUrl = core.moo.transport.ws._url.substring(5);
      const zonesToAdd = data.zones || data.zones_added || [];
      for (const zone of zonesToAdd) { ... }
      if (data.zones_changed) { ... }
      if (data.zones_removed) { ... }
      if (data.zones_seek_changed) { ... }
  });
  \<close>
  An array is truthy even when empty, so each list is taken whenever it is present.
\<close>

definition subscribe_zones_callback ::
  "(player_obj \<Rightarrow> jsstring \<Rightarrow> jsstring) \<Rightarrow> bridge \<Rightarrow> zones_data \<Rightarrow> bridge \<times> error option" where
  "subscribe_zones_callback objectPath b data =
     (case core b of
        None \<Rightarrow> (b, None)
      | Some c \<Rightarrow>
          (case ws_url c of
             None \<Rightarrow> (b, None)
           | Some url \<Rightarrow>
               (let ws = drop 5 url;
                    zonesToAdd = (case zones data of
                                    Some zs \<Rightarrow> zs
                                  | None \<Rightarrow> (case zones_added data of Some zs \<Rightarrow> zs | None \<Rightarrow> []))
                in case onZonesAdded objectPath ws b zonesToAdd of
                     (b, Some e) \<Rightarrow> (b, Some e)
                   | (b, None) \<Rightarrow>
                       (case (case zones_changed data of
                                None \<Rightarrow> (b, None)
                              | Some zs \<Rightarrow> onZonesChanged objectPath b zs) of
                          (b, Some e) \<Rightarrow> (b, Some e)
                        | (b, None) \<Rightarrow>
                            (let b = (case zones_removed data of None \<Rightarrow> b | Some ids \<Rightarrow> onZonesRemoved b ids);
                                 b = (case zones_seek_changed data of None \<Rightarrow> b | Some cs \<Rightarrow> onZonesSeekChanged b cs)
                             in (b, None))))))"

section \<open>Reference definitions and sample data\<close>

text \<open>
  The rolling hash as a computation on 32-bit words: shift left by five, subtract, add the
  code unit, all modulo \<open>2^32\<close>.
\<close>

definition rolling_hash_spec :: "jsstring \<Rightarrow> 32 word" where
  "rolling_hash_spec s = foldl (\<lambda>hash c. push_bit 5 hash - hash + ucast c) 0 s"

text \<open>Reading a lower-case hexadecimal numeral back.\<close>

definition hex_digit_value :: "code_unit \<Rightarrow> int" where
  "hex_digit_value c = (if c \<le> 57 then uint c - 48 else uint c - 87)"

definition hex_value :: "jsstring \<Rightarrow> int" where
  "hex_value s = foldl (\<lambda>v c. v * 16 + hex_digit_value c) 0 s"

text \<open>The lower-case hexadecimal digits.\<close>

definition is_hex_char :: "code_unit \<Rightarrow> bool" where
  "is_hex_char c = (is_digit c \<or> (97 \<le> c \<and> c \<le> 102))"

text \<open>
  The zone of the end-to-end example: \<open>z1\<close>, named "Living Room", playing "Song". The
  capability flags and the quality attributes, which the example leaves out, are false and
  undefined.
\<close>

definition living_room_now_playing :: now_playing_obj where
  "living_room_now_playing =
     \<lparr>three_line = Some \<lparr>line1 = Some (js ''Song''), line2 = Some (js ''Artist A / Artist B''),
                            line3 = Some (js ''Album'')\<rparr>,
      length_np = Some 200, seek_position = Some 10, image_key = Some (js ''img1''),
      sample_rate = Undefined, bit_depth = Undefined, bitrate = Undefined, format = Undefined,
      media_format = Undefined, source_type = Undefined\<rparr>"

definition living_room :: zone_obj where
  "living_room =
     \<lparr>zone_id = js ''z1'', display_name = js ''Living Room'', state = js ''playing'',
      is_next_allowed = False, is_previous_allowed = False, is_pause_allowed = False,
      is_seek_allowed = False,
      now_playing = Some living_room_now_playing, outputs = []\<rparr>"

text \<open>A second snapshot with the identifier of the first, and one without \<open>three_line\<close>.\<close>

definition kitchen :: zone_obj where
  "kitchen = living_room\<lparr>display_name := js ''Kitchen'', now_playing := None\<rparr>"

definition no_three_line_zone :: zone_obj where
  "no_three_line_zone = living_room\<lparr>now_playing := Some (living_room_now_playing\<lparr>three_line := None\<rparr>)\<rparr>"

text \<open>
  The object path the player library (mpris-service) builds: the subpath under the
  namespace of the player, which is its bus name.
\<close>

definition library_objectPath :: "player_obj \<Rightarrow> jsstring \<Rightarrow> jsstring" where
  "library_objectPath p subpath = js ''/org/node/mediaplayer/'' @ name p @ js ''/'' @ subpath"

text \<open>
  A paired bridge with no zone yet, and one whose registry holds a context of the example
  zone with the position last reported at ten seconds.
\<close>

definition paired_bridge :: bridge where
  "paired_bridge =
     \<lparr>core = Some \<lparr>ws_url = Some (js ''ws://192.168.1.5:9100'')\<rparr>,
      zonePlayerMap = Map.empty, constructed = [], disconnected = [], upstream = [], console = []\<rparr>"

definition living_room_bridge :: bridge where
  "living_room_bridge =
     paired_bridge\<lparr>zonePlayerMap :=
       [js ''z1'' \<mapsto> (createPlayerContext living_room (js ''192.168.1.5:9100''))\<lparr>lastReportedPosition := 10000000\<rparr>]\<rparr>"

text \<open>Payloads that carry one list only.\<close>

definition only_zones :: "zone_obj list \<Rightarrow> zones_data" where
  "only_zones zs =
     \<lparr>zones = Some zs, zones_added = None, zones_changed = None,
      zones_removed = None, zones_seek_changed = None\<rparr>"

definition only_removed :: "jsstring list \<Rightarrow> zones_data" where
  "only_removed zoneIds =
     \<lparr>zones = None, zones_added = None, zones_changed = None,
      zones_removed = Some zoneIds, zones_seek_changed = None\<rparr>"

definition only_seek_changed :: "seek_change list \<Rightarrow> zones_data" where
  "only_seek_changed changes =
     \<lparr>zones = None, zones_added = None, zones_changed = None,
      zones_removed = None, zones_seek_changed = Some changes\<rparr>"

text \<open>
  The number of players the bridge has constructed for a zone identifier, and the subpath
  of a track: the part of the token that the generator itself computes.
\<close>

definition players_for :: "bridge \<Rightarrow> jsstring \<Rightarrow> nat" where
  "players_for b zoneId = length (filter (\<lambda>e. fst e = zoneId) (constructed b))"

definition track_subpath :: "jsstring \<Rightarrow> jsstring \<Rightarrow> jsstring \<Rightarrow> jsstring \<Rightarrow> jsstring" where
  "track_subpath zoneId title artist album = js ''track/'' @ zoneId @ js ''_'' @ track_hashStr title artist album"

section \<open>Properties of the name sanitizer\<close>

lemma underscore_is_dbus_char: "is_dbus_char 95"
  by (simp add: is_dbus_char_def)

text \<open>
  Claim C3. For every display name, the empty one and those made of disallowed characters
  only included, \<open>sanitizeForDBus\<close> returns a string that matches
  \<open>^[A-Za-z0-9_-]+$\<close>, is not empty and does not begin with a digit. The function is
  total: on a string it has no way to throw.
\<close>

theorem sanitizeForDBus_valid:
  "matches_dbus_name (sanitizeForDBus displayName)
   \<and> sanitizeForDBus displayName \<noteq> []
   \<and> \<not> starts_with_digit (sanitizeForDBus displayName)"
proof (cases displayName)
  case Nil
  then show ?thesis
    by (simp add: sanitizeForDBus_def matches_dbus_name_def starts_with_digit_def js_def
        is_dbus_char_def is_lower_def is_upper_def is_digit_def)
next
  case (Cons c cs)
  let ?m = "map (\<lambda>c. if is_dbus_char c then c else 95) displayName"
  have all: "list_all is_dbus_char ?m"
    using underscore_is_dbus_char by (auto simp: list_all_iff)
  have ne: "?m \<noteq> []"
    using Cons by simp
  have z: "list_all is_dbus_char (js ''zone_'')" "\<not> starts_with_digit (js ''zone_'' @ ?m)"
    by (simp_all add: js_def is_dbus_char_def is_lower_def is_upper_def is_digit_def
        starts_with_digit_def)
  show ?thesis
    using all ne z by (simp add: sanitizeForDBus_def matches_dbus_name_def Let_def)
qed

section \<open>Properties of the track identity\<close>

subsection \<open>The loop computes the 32-bit rolling hash\<close>

lemma ToInt32_shift: "ToInt32 x = (x + 2147483648) mod 4294967296 - 2147483648"
proof -
  define m where "m = x mod 4294967296"
  have r: "0 \<le> m" "m < 4294967296"
    by (simp_all add: m_def)
  have "(x + 2147483648) mod 4294967296 = (m + 2147483648) mod 4294967296"
    unfolding m_def by (simp add: mod_add_left_eq)
  also have "\<dots> = (if 2147483648 \<le> m then m - 2147483648 else m + 2147483648)"
  proof (cases "2147483648 \<le> m")
    case True
    have e: "m + 2147483648 = (m - 2147483648) + 4294967296"
      by arith
    have "(m - 2147483648) mod 4294967296 = m - 2147483648"
      using True r by (intro mod_pos_pos_trivial) simp_all
    then have "(m + 2147483648) mod 4294967296 = m - 2147483648"
      unfolding e by (simp only: mod_add_self2)
    then show ?thesis using True by simp
  next
    case False
    then have "(m + 2147483648) mod 4294967296 = m + 2147483648"
      using r by (intro mod_pos_pos_trivial) simp_all
    with False show ?thesis by simp
  qed
  finally have f: "(x + 2147483648) mod 4294967296 = (if 2147483648 \<le> m then m - 2147483648 else m + 2147483648)" .
  have "ToInt32 x = (if 2147483648 \<le> m then m - 4294967296 else m)"
    unfolding ToInt32_def Let_def m_def by simp
  with f show ?thesis
    by simp
qed

lemma ToInt32_sint_aux: "sint (word_of_int x :: 32 word) = (x + 2147483648) mod 4294967296 - 2147483648"
proof -
  have "sint (word_of_int x :: 32 word) = signed_take_bit 31 x"
    by (simp add: sint_sbintrunc')
  also have "\<dots> = take_bit (Suc 31) (x + 2 ^ 31) - 2 ^ 31"
    by (rule signed_take_bit_eq_take_bit_shift)
  also have "\<dots> = (x + 2 ^ 31) mod 2 ^ Suc 31 - 2 ^ 31"
    by (simp only: take_bit_eq_mod)
  finally show ?thesis
    by simp
qed

lemma ToInt32_sint: "ToInt32 x = sint (word_of_int x :: 32 word)"
  by (simp only: ToInt32_shift ToInt32_sint_aux)

lemma word_of_ToInt32: "(word_of_int (ToInt32 x) :: 32 word) = word_of_int x"
  by (simp add: ToInt32_sint)

lemma word_of_js_shl5: "(word_of_int (js_shl (sint w) 5) :: 32 word) = push_bit 5 w" for w :: "32 word"
proof -
  have "(word_of_int (js_shl (sint w) 5) :: 32 word) = word_of_int (ToInt32 (sint w) * 32)"
    unfolding js_shl_def word_of_ToInt32 by simp
  also have "\<dots> = word_of_int (ToInt32 (sint w)) * 32"
    by (simp only: of_int_mult of_int_numeral)
  also have "\<dots> = w * 32"
    unfolding word_of_ToInt32 by simp
  finally show ?thesis
    by (simp add: push_bit_eq_mult)
qed

lemma word_of_code_unit: "(word_of_int (uint c) :: 32 word) = ucast c" for c :: code_unit
  by (rule sym) (rule ucast_eq)

lemma word_of_hash_step:
  "(word_of_int ((js_shl (sint w) 5 - sint w) + uint c) :: 32 word) = push_bit 5 w - w + ucast c"
  for w :: "32 word" and c :: code_unit
proof -
  have "(word_of_int ((js_shl (sint w) 5 - sint w) + uint c) :: 32 word)
      = word_of_int (js_shl (sint w) 5) - word_of_int (sint w) + word_of_int (uint c)"
    by (simp only: of_int_add of_int_diff)
  also have "\<dots> = push_bit 5 w - w + ucast c"
    unfolding word_of_js_shl5 word_of_code_unit by simp
  finally show ?thesis .
qed

lemma hash_step_word:
  "js_and ((js_shl (sint w) 5 - sint w) + uint c) ((js_shl (sint w) 5 - sint w) + uint c)
     = sint (push_bit 5 w - w + ucast c :: 32 word)" for w :: "32 word" and c :: code_unit
proof -
  let ?y = "(js_shl (sint w) 5 - sint w) + uint c"
  have "js_and ?y ?y = ToInt32 ?y"
    by (simp add: js_and_def)
  also have "\<dots> = sint (word_of_int ?y :: 32 word)"
    by (rule ToInt32_sint)
  finally show ?thesis
    unfolding word_of_hash_step .
qed

lemma hash_loop_word: "hash_loop (sint w) cs = sint (foldl (\<lambda>hash c. push_bit 5 hash - hash + ucast c) w cs)"
  for w :: "32 word"
proof (induction cs arbitrary: w)
  case Nil
  show ?case by simp
next
  case (Cons c cs)
  show ?case
    by (simp only: hash_loop.simps Let_def hash_step_word Cons.IH foldl_Cons)
qed

lemma ToUint32_hash: "ToUint32 (hash_loop 0 cs) = uint (rolling_hash_spec cs)"
proof -
  have "hash_loop 0 cs = sint (rolling_hash_spec cs)"
    using hash_loop_word [of 0 cs] by (simp add: rolling_hash_spec_def)
  moreover have "uint (rolling_hash_spec cs) = take_bit 32 (sint (rolling_hash_spec cs))"
    using uint_sint [of "rolling_hash_spec cs"] by simp
  ultimately show ?thesis
    unfolding ToUint32_def by (simp only: take_bit_eq_mod)
qed

subsection \<open>The hexadecimal rendering\<close>

lemma toString16_nonempty: "toString16 n \<noteq> []"
  by (subst toString16.simps) simp

lemma toString16_length: "n < 16 ^ Suc k \<Longrightarrow> length (toString16 n) \<le> Suc k"
proof (induction k arbitrary: n)
  case 0
  then show ?case by (subst toString16.simps) simp
next
  case (Suc k)
  show ?case
  proof (cases "n < 16")
    case True
    then show ?thesis by (subst toString16.simps) simp
  next
    case False
    define m :: int where "m = 16 ^ Suc k"
    from Suc.prems have "n < m * 16"
      by (simp add: m_def mult.commute)
    then have "n div 16 < m"
      by arith
    then have "length (toString16 (n div 16)) \<le> Suc k"
      unfolding m_def by (rule Suc.IH)
    with False show ?thesis by (subst toString16.simps) simp
  qed
qed

lemma ToUint32_bound: "ToUint32 h < 4294967296"
  unfolding ToUint32_def by simp

lemma hashStr_length: "length (track_hashStr t a al) \<le> 8"
proof -
  have "(16::int) ^ Suc 7 = 4294967296"
    by simp
  then have "ToUint32 h < 16 ^ Suc 7" for h
    using ToUint32_bound [of h] by (simp only:)
  then have "length (toString16 (ToUint32 h)) \<le> Suc 7" for h
    by (rule toString16_length)
  then show ?thesis
    by (simp add: track_hashStr_def Let_def)
qed

lemma hex_digit_value_digit: "0 \<le> d \<Longrightarrow> d < 16 \<Longrightarrow> hex_digit_value (hex_digit d) = d"
proof -
  assume "0 \<le> d" and "d < 16"
  then have "d \<in> {0, 1, 2, 3, 4, 5, 6, 7, 8, 9, 10, 11, 12, 13, 14, 15}"
    by simp arith
  then show ?thesis
    by (auto simp: hex_digit_value_def hex_digit_def)
qed

lemma hex_value_snoc: "hex_value (s @ [c]) = hex_value s * 16 + hex_digit_value c"
  by (simp add: hex_value_def)

lemma hex_value_toString16: "0 \<le> n \<Longrightarrow> hex_value (toString16 n) = n"
proof (induction n rule: toString16.induct)
  case (1 n)
  show ?case
  proof (cases "n < 16")
    case True
    with "1.prems" have "hex_value [hex_digit n] = n"
      by (simp add: hex_value_def hex_digit_value_digit)
    with True show ?thesis
      by (subst toString16.simps) simp
  next
    case False
    with "1.prems" have "hex_value (toString16 (n div 16)) = n div 16"
      by (intro "1.IH") simp_all
    moreover have "hex_digit_value (hex_digit (n mod 16)) = n mod 16"
      by (rule hex_digit_value_digit) simp_all
    ultimately have "hex_value (toString16 (n div 16) @ [hex_digit (n mod 16)]) = n"
      by (simp add: hex_value_snoc)
    with False show ?thesis
      by (subst toString16.simps) simp
  qed
qed

lemma hex_digit_cases:
  "0 \<le> d \<Longrightarrow> d < 16 \<Longrightarrow> d \<in> {0, 1, 2, 3, 4, 5, 6, 7, 8, 9, 10, 11, 12, 13, 14, 15}" for d :: int
  by simp arith

lemma hex_digit_is_hex: "0 \<le> d \<Longrightarrow> d < 16 \<Longrightarrow> is_hex_char (hex_digit d)"
  using hex_digit_cases [of d] by (auto simp: is_hex_char_def is_digit_def hex_digit_def)

lemma hex_digit_zero: "0 \<le> d \<Longrightarrow> d < 16 \<Longrightarrow> (hex_digit d = 48) = (d = 0)"
  using hex_digit_cases [of d] by (auto simp: hex_digit_def)

lemma toString16_hex: "0 \<le> n \<Longrightarrow> list_all is_hex_char (toString16 n)"
proof (induction n rule: toString16.induct)
  case (1 n)
  show ?case
  proof (cases "n < 16")
    case True
    with "1.prems" show ?thesis
      by (subst toString16.simps) (simp add: hex_digit_is_hex)
  next
    case False
    with "1.prems" have "list_all is_hex_char (toString16 (n div 16))"
      by (intro "1.IH") simp_all
    moreover have "is_hex_char (hex_digit (n mod 16))"
      by (rule hex_digit_is_hex) simp_all
    ultimately show ?thesis
      using False by (subst toString16.simps) simp
  qed
qed

lemma toString16_leading: "0 \<le> n \<Longrightarrow> (hd (toString16 n) = 48) = (n = 0)"
proof (induction n rule: toString16.induct)
  case (1 n)
  show ?case
  proof (cases "n < 16")
    case True
    with "1.prems" show ?thesis
      by (subst toString16.simps) (simp add: hex_digit_zero)
  next
    case False
    with "1.prems" have "(hd (toString16 (n div 16)) = 48) = (n div 16 = 0)"
      by (intro "1.IH") simp_all
    moreover from False have "n div 16 \<noteq> 0" "n \<noteq> 0"
      by simp_all
    ultimately show ?thesis
      using False toString16_nonempty [of "n div 16"]
      by (subst toString16.simps) simp
  qed
qed

lemma hash_example_empty: "track_hashStr [] [] [] = js ''f80''"
  by code_simp

lemma hash_example_song: "track_hashStr (js ''Song'') (js ''Artist A / Artist B'') (js ''Album'') = js ''9c43b1be''"
  by code_simp

lemma js_append: "js a @ js b = js (a @ b)"
  by (simp add: js_def)

text \<open>
  Claim C6, as stated, has the hash rendered as a fixed-width hexadecimal string. The
  rendering has no padding: the empty track gives three digits, the example track eight.
\<close>

theorem hashStr_not_fixed_width:
  "track_hashStr [] [] [] = js ''f80''
   \<and> track_hashStr (js ''Song'') (js ''Artist A / Artist B'') (js ''Album'') = js ''9c43b1be''
   \<and> length (track_hashStr [] [] [])
       \<noteq> length (track_hashStr (js ''Song'') (js ''Artist A / Artist B'') (js ''Album''))"
  by (simp only: hash_example_empty hash_example_song) (simp add: js_def)

text \<open>
  Claim C6, amended. For every input the generator joins title, artist and album with the
  delimiter \<open>|\<close>, computes the order-dependent rolling hash
  \<open>hash = (hash << 5) - hash + charCode\<close> in 32-bit arithmetic, takes it as an unsigned
  32-bit value, renders that value as a lower-case hexadecimal numeral without padding or
  leading zero, of one to eight digits, and puts it after the zone identifier to form the
  token.
\<close>

theorem generateTrackId_algorithm:
  "(let combined = track_title nowPlaying @ js ''|'' @ track_artist nowPlaying @ js ''|'' @ track_album nowPlaying;
        hashStr = toString16 (uint (rolling_hash_spec combined))
    in generateTrackId objectPath p zoneId nowPlaying
         = objectPath p (js ''track/'' @ zoneId @ js ''_'' @ hashStr)
       \<and> hex_value hashStr = uint (rolling_hash_spec combined)
       \<and> list_all is_hex_char hashStr
       \<and> (hd hashStr = 48) = (rolling_hash_spec combined = 0)
       \<and> 1 \<le> length hashStr \<and> length hashStr \<le> 8)"
proof -
  let ?combined = "track_title nowPlaying @ js ''|'' @ track_artist nowPlaying @ js ''|'' @ track_album nowPlaying"
  let ?hashStr = "toString16 (uint (rolling_hash_spec ?combined))"
  have s: "track_hashStr (track_title nowPlaying) (track_artist nowPlaying) (track_album nowPlaying) = ?hashStr"
    by (simp add: track_hashStr_def Let_def ToUint32_hash)
  have g: "generateTrackId objectPath p zoneId nowPlaying
      = objectPath p (js ''track/'' @ zoneId @ js ''_'' @ ?hashStr)"
    by (simp only: generateTrackId_def Let_def s)
  have v: "hex_value ?hashStr = uint (rolling_hash_spec ?combined)"
    by (rule hex_value_toString16) simp
  have x: "list_all is_hex_char ?hashStr"
    by (rule toString16_hex) simp
  have "(hd ?hashStr = 48) = (uint (rolling_hash_spec ?combined) = 0)"
    by (rule toString16_leading) simp
  then have z: "(hd ?hashStr = 48) = (rolling_hash_spec ?combined = 0)"
    by (simp add: uint_0_iff)
  have "?hashStr \<noteq> []"
    by (rule toString16_nonempty)
  then have l1: "1 \<le> length ?hashStr"
    by (simp add: Suc_le_eq)
  have l8: "length ?hashStr \<le> 8"
    using hashStr_length [of "track_title nowPlaying" "track_artist nowPlaying" "track_album nowPlaying"]
    by (simp only: s)
  from g v x z l1 l8 show ?thesis
    unfolding Let_def by (intro conjI)
qed

section \<open>Properties of the projection\<close>

lemma sanitize_living_room: "sanitizeForDBus (js ''Living Room'') = js ''Living_Room''"
  by code_simp

lemma split_living_room: "split_artists (js ''Artist A / Artist B'') = [js ''Artist A'', js ''Artist B'']"
  by code_simp

lemma living_room_lines:
  "track_title living_room_now_playing = js ''Song''"
  "track_artist living_room_now_playing = js ''Artist A / Artist B''"
  "track_album living_room_now_playing = js ''Album''"
  by (simp_all add: track_title_def track_artist_def track_album_def living_room_now_playing_def or_empty_def)

lemma living_room_trackid:
  "generateTrackId objectPath p (js ''z1'') living_room_now_playing = objectPath p (js ''track/z1_9c43b1be'')"
  by (simp add: generateTrackId_def living_room_lines hash_example_song js_append)

lemma living_room_base_metadata:
  "base_metadata trackId (js ''192.168.1.5:9100'') living_room_now_playing =
     Inr [(''mpris:trackid'', Str trackId),
          (''mpris:length'', Num 200000000),
          (''mpris:artUrl'', Str (js ''http://192.168.1.5:9100/image/img1'')),
          (''xesam:title'', Str (js ''Song'')),
          (''xesam:album'', Str (js ''Album'')),
          (''xesam:artist'', StrList [js ''Artist A'', js ''Artist B''])]"
  by (simp add: base_metadata_def living_room_now_playing_def template_str_def str_prop_def
      split_living_room js_append)

lemma living_room_quality: "quality_metadata living_room_now_playing m = m"
  by (simp add: quality_metadata_def set_if_truthy_def living_room_now_playing_def)

lemma add_zone_known: "zonePlayerMap b (zone_id z) \<noteq> None \<Longrightarrow> add_zone objectPath ws b z = (b, None)"
  by (simp add: add_zone_def)

lemma add_zone_makes_known: "zonePlayerMap (fst (add_zone objectPath ws b z)) (zone_id z) \<noteq> None"
  by (auto simp: add_zone_def Let_def split: sum.splits)

lemma add_zone_constructed:
  "zonePlayerMap b (zone_id z) = None \<Longrightarrow>
   constructed (fst (add_zone objectPath ws b z)) =
     constructed b @ [(zone_id z, js ''roon_'' @ sanitizeForDBus (display_name z))]"
  by (auto simp: add_zone_def createPlayerContext_def Let_def split: sum.splits)

lemma onZonesAdded_single: "onZonesAdded objectPath ws b [z] = add_zone objectPath ws b z"
  by (cases "add_zone objectPath ws b z") (auto simp: onZonesAdded_def split: option.splits)

lemma capitalize_playing: "capitalize (js ''playing'') = js ''Playing''"
  by code_simp

lemma living_room_update:
  "updatePlayerFromZone objectPath (createPlayerContext living_room (js ''192.168.1.5:9100'')) =
     Inr ((createPlayerContext living_room (js ''192.168.1.5:9100''))
       \<lparr>player := (player (createPlayerContext living_room (js ''192.168.1.5:9100'')))
          \<lparr>metadata := Some
             [(''mpris:trackid'',
                 Str (objectPath (player (createPlayerContext living_room (js ''192.168.1.5:9100'')))
                        (js ''track/z1_9c43b1be''))),
              (''mpris:length'', Num 200000000),
              (''mpris:artUrl'', Str (js ''http://192.168.1.5:9100/image/img1'')),
              (''xesam:title'', Str (js ''Song'')),
              (''xesam:album'', Str (js ''Album'')),
              (''xesam:artist'', StrList [js ''Artist A'', js ''Artist B''])],
           playbackStatus := Some (js ''Playing''),
           canGoNext := Some False, canGoPrevious := Some False,
           canPause := Some False, canSeek := Some False\<rparr>\<rparr>)"
proof -
  let ?c = "createPlayerContext living_room (js ''192.168.1.5:9100'')"
  have z: "zone ?c = living_room" "wsUrl ?c = js ''192.168.1.5:9100''"
    by (simp_all add: createPlayerContext_def Let_def)
  have l: "now_playing living_room = Some living_room_now_playing" "zone_id living_room = js ''z1''"
    "outputs living_room = []" "state living_room = js ''playing''"
    "is_next_allowed living_room = False" "is_previous_allowed living_room = False"
    "is_pause_allowed living_room = False" "is_seek_allowed living_room = False"
    by (simp_all add: living_room_def)
  show ?thesis
    by (simp add: updatePlayerFromZone_def Let_def z l living_room_trackid living_room_base_metadata
        living_room_quality output_metadata_def capitalize_playing)
qed

lemma drop_scheme: "drop 5 (js ''ws://192.168.1.5:9100'') = js ''192.168.1.5:9100''"
  by (simp add: js_def)

lemma callback_only_zones:
  "core b = Some c \<Longrightarrow> ws_url c = Some url \<Longrightarrow>
   onZonesAdded objectPath (drop 5 url) b zs = (b', None) \<Longrightarrow>
   subscribe_zones_callback objectPath b (only_zones zs) = (b', None)"
  by (simp add: subscribe_zones_callback_def only_zones_def Let_def)

lemma living_room_end_to_end:
  "subscribe_zones_callback objectPath paired_bridge (only_zones [living_room]) =
     (paired_bridge
        \<lparr>console := [Creating_player (js ''Living Room'')],
         constructed := [(js ''z1'', js ''roon_Living_Room'')],
         zonePlayerMap := [js ''z1'' \<mapsto>
           (createPlayerContext living_room (js ''192.168.1.5:9100''))
             \<lparr>player := (player (createPlayerContext living_room (js ''192.168.1.5:9100'')))
                \<lparr>metadata := Some
                   [(''mpris:trackid'',
                       Str (objectPath (player (createPlayerContext living_room (js ''192.168.1.5:9100'')))
                              (js ''track/z1_9c43b1be''))),
                    (''mpris:length'', Num 200000000),
                    (''mpris:artUrl'', Str (js ''http://192.168.1.5:9100/image/img1'')),
                    (''xesam:title'', Str (js ''Song'')),
                    (''xesam:album'', Str (js ''Album'')),
                    (''xesam:artist'', StrList [js ''Artist A'', js ''Artist B''])],
                 playbackStatus := Some (js ''Playing''),
                 canGoNext := Some False, canGoPrevious := Some False,
                 canPause := Some False, canSeek := Some False\<rparr>\<rparr>]\<rparr>, None)"
proof -
  have n: "name (player (createPlayerContext living_room (js ''192.168.1.5:9100''))) = js ''roon_Living_Room''"
    by (simp add: createPlayerContext_def living_room_def Let_def sanitize_living_room js_append)
  have l: "zone_id living_room = js ''z1''" "display_name living_room = js ''Living Room''"
    by (simp_all add: living_room_def)
  have a: "add_zone objectPath (js ''192.168.1.5:9100'') paired_bridge living_room =
     (paired_bridge
        \<lparr>console := [Creating_player (js ''Living Room'')],
         constructed := [(js ''z1'', js ''roon_Living_Room'')],
         zonePlayerMap := [js ''z1'' \<mapsto>
           (createPlayerContext living_room (js ''192.168.1.5:9100''))
             \<lparr>player := (player (createPlayerContext living_room (js ''192.168.1.5:9100'')))
                \<lparr>metadata := Some
                   [(''mpris:trackid'',
                       Str (objectPath (player (createPlayerContext living_room (js ''192.168.1.5:9100'')))
                              (js ''track/z1_9c43b1be''))),
                    (''mpris:length'', Num 200000000),
                    (''mpris:artUrl'', Str (js ''http://192.168.1.5:9100/image/img1'')),
                    (''xesam:title'', Str (js ''Song'')),
                    (''xesam:album'', Str (js ''Album'')),
                    (''xesam:artist'', StrList [js ''Artist A'', js ''Artist B''])],
                 playbackStatus := Some (js ''Playing''),
                 canGoNext := Some False, canGoPrevious := Some False,
                 canPause := Some False, canSeek := Some False\<rparr>\<rparr>]\<rparr>, None)"
    by (simp add: add_zone_def Let_def living_room_update n l paired_bridge_def)
  have c: "core paired_bridge = Some \<lparr>ws_url = Some (js ''ws://192.168.1.5:9100'')\<rparr>"
    by (simp add: paired_bridge_def)
  have u: "ws_url \<lparr>ws_url = Some (js ''ws://192.168.1.5:9100'')\<rparr> = Some (js ''ws://192.168.1.5:9100'')"
    by simp
  show ?thesis
    by (rule callback_only_zones [OF c u]) (simp only: drop_scheme onZonesAdded_single a)
qed

lemma living_room_names:
  "sanitizedName (createPlayerContext living_room (js ''192.168.1.5:9100'')) = js ''roon_Living_Room''"
  "name (player (createPlayerContext living_room (js ''192.168.1.5:9100''))) = js ''roon_Living_Room''"
  by (simp_all add: createPlayerContext_def living_room_def Let_def sanitize_living_room js_append)

text \<open>
  Claim C2. The example zone, created with the base address \<open>192.168.1.5:9100\<close>, gets the
  player identifier \<open>roon_Living_Room\<close>, and its projection succeeds with the metadata
  \<open>artist = ["Artist A", "Artist B"]\<close>, \<open>length = 200000000\<close> and
  \<open>artUrl = "http://192.168.1.5:9100/image/img1"\<close>, beside the track identifier, the
  title and the album. The same context is what the callback leaves in the registry when
  the zone arrives over a connection to \<open>ws://192.168.1.5:9100\<close>.
\<close>

theorem living_room_projection:
  "(let context = createPlayerContext living_room (js ''192.168.1.5:9100'');
        projected = context
          \<lparr>player := (player context)
             \<lparr>metadata := Some
                [(''mpris:trackid'', Str (objectPath (player context) (js ''track/z1_9c43b1be''))),
                 (''mpris:length'', Num 200000000),
                 (''mpris:artUrl'', Str (js ''http://192.168.1.5:9100/image/img1'')),
                 (''xesam:title'', Str (js ''Song'')),
                 (''xesam:album'', Str (js ''Album'')),
                 (''xesam:artist'', StrList [js ''Artist A'', js ''Artist B''])],
              playbackStatus := Some (js ''Playing''),
              canGoNext := Some False, canGoPrevious := Some False,
              canPause := Some False, canSeek := Some False\<rparr>\<rparr>
    in sanitizedName context = js ''roon_Living_Room''
       \<and> name (player context) = js ''roon_Living_Room''
       \<and> updatePlayerFromZone objectPath context = Inr projected
       \<and> subscribe_zones_callback objectPath paired_bridge (only_zones [living_room])
           = (paired_bridge
                \<lparr>console := [Creating_player (js ''Living Room'')],
                 constructed := [(js ''z1'', js ''roon_Living_Room'')],
                 zonePlayerMap := [js ''z1'' \<mapsto> projected]\<rparr>, None))"
  unfolding Let_def
  by (intro conjI living_room_names living_room_update living_room_end_to_end)

subsection \<open>The token and the player\<close>

lemma sanitize_kitchen: "sanitizeForDBus (js ''Kitchen'') = js ''Kitchen''"
  by code_simp

lemma kitchen_name: "name (player (createPlayerContext kitchen ws)) = js ''roon_Kitchen''"
  by (simp add: createPlayerContext_def kitchen_def Let_def sanitize_kitchen js_append)

lemma updatePlayerFromZone_name:
  "updatePlayerFromZone objectPath context = Inr context' \<Longrightarrow> name (player context') = name (player context)"
  by (auto simp: updatePlayerFromZone_def Let_def split: option.splits sum.splits)

lemma library_objectPath_name: "name p = name p' \<Longrightarrow> library_objectPath p s = library_objectPath p' s"
  by (simp add: library_objectPath_def)

text \<open>
  Claim C5, as stated, makes the token a function of the zone identifier, title, artist
  and album alone. The token is what \<open>player.objectPath\<close> returns, so it lies under the
  namespace of the player: the same zone \<open>z1\<close> with the same track gets another token
  when its player was created under the display name "Kitchen" instead of "Living Room".
\<close>

theorem trackId_depends_on_player:
  "zone_id kitchen = zone_id living_room
   \<and> generateTrackId library_objectPath (player (createPlayerContext living_room (js ''192.168.1.5:9100'')))
        (js ''z1'') living_room_now_playing
       = js ''/org/node/mediaplayer/roon_Living_Room/track/z1_9c43b1be''
   \<and> generateTrackId library_objectPath (player (createPlayerContext kitchen (js ''192.168.1.5:9100'')))
        (js ''z1'') living_room_now_playing
       = js ''/org/node/mediaplayer/roon_Kitchen/track/z1_9c43b1be''
   \<and> generateTrackId library_objectPath (player (createPlayerContext living_room (js ''192.168.1.5:9100'')))
        (js ''z1'') living_room_now_playing
       \<noteq> generateTrackId library_objectPath (player (createPlayerContext kitchen (js ''192.168.1.5:9100'')))
            (js ''z1'') living_room_now_playing"
proof -
  have a: "generateTrackId library_objectPath (player (createPlayerContext living_room (js ''192.168.1.5:9100'')))
        (js ''z1'') living_room_now_playing = js ''/org/node/mediaplayer/roon_Living_Room/track/z1_9c43b1be''"
    by (simp add: living_room_trackid library_objectPath_def living_room_names js_append)
  have b: "generateTrackId library_objectPath (player (createPlayerContext kitchen (js ''192.168.1.5:9100'')))
        (js ''z1'') living_room_now_playing = js ''/org/node/mediaplayer/roon_Kitchen/track/z1_9c43b1be''"
    by (simp add: living_room_trackid library_objectPath_def kitchen_name js_append)
  have c: "js ''/org/node/mediaplayer/roon_Living_Room/track/z1_9c43b1be''
      \<noteq> js ''/org/node/mediaplayer/roon_Kitchen/track/z1_9c43b1be''"
    by (simp add: js_def)
  have d: "zone_id kitchen = zone_id living_room"
    by (simp add: kitchen_def)
  from a b c d show ?thesis
    by (simp only: simp_thms)
qed

text \<open>
  Claim C5, amended. For every player, zone identifier and now-playing record the token
  is \<open>player.objectPath\<close> applied to a subpath that is a function of the zone identifier,
  title, artist and album alone (an absent line counts as the empty string); the generator
  reads no clock, counter or other state. So records with the same title, artist and
  album get the same token for one player, and also for two players or two states of a
  player whose object paths agree; with the library's object path it is enough that the
  bus names agree, which holds before and after every projection of a context.
\<close>

theorem generateTrackId_pure:
  "generateTrackId objectPath p zoneId nowPlaying
     = objectPath p (track_subpath zoneId (track_title nowPlaying) (track_artist nowPlaying) (track_album nowPlaying))
   \<and> (track_title nowPlaying = track_title nowPlaying' \<and> track_artist nowPlaying = track_artist nowPlaying'
        \<and> track_album nowPlaying = track_album nowPlaying' \<longrightarrow>
        generateTrackId objectPath p zoneId nowPlaying = generateTrackId objectPath p zoneId nowPlaying'
        \<and> ((\<forall>s. objectPath p s = objectPath p' s) \<longrightarrow>
             generateTrackId objectPath p zoneId nowPlaying = generateTrackId objectPath p' zoneId nowPlaying')
        \<and> (name p = name p' \<longrightarrow>
             generateTrackId library_objectPath p zoneId nowPlaying
               = generateTrackId library_objectPath p' zoneId nowPlaying')
        \<and> (updatePlayerFromZone library_objectPath context = Inr context' \<longrightarrow>
             generateTrackId library_objectPath (player context) zoneId nowPlaying
               = generateTrackId library_objectPath (player context') zoneId nowPlaying'))"
proof -
  let ?sub = "track_subpath zoneId (track_title nowPlaying) (track_artist nowPlaying) (track_album nowPlaying)"
  have e: "generateTrackId f q zoneId np
      = f q (track_subpath zoneId (track_title np) (track_artist np) (track_album np))" for f q np
    by (simp add: generateTrackId_def track_subpath_def)
  have rest: "generateTrackId objectPath p zoneId nowPlaying = generateTrackId objectPath p zoneId nowPlaying'
        \<and> ((\<forall>s. objectPath p s = objectPath p' s) \<longrightarrow>
             generateTrackId objectPath p zoneId nowPlaying = generateTrackId objectPath p' zoneId nowPlaying')
        \<and> (name p = name p' \<longrightarrow>
             generateTrackId library_objectPath p zoneId nowPlaying
               = generateTrackId library_objectPath p' zoneId nowPlaying')
        \<and> (updatePlayerFromZone library_objectPath context = Inr context' \<longrightarrow>
             generateTrackId library_objectPath (player context) zoneId nowPlaying
               = generateTrackId library_objectPath (player context') zoneId nowPlaying')"
    if t: "track_title nowPlaying = track_title nowPlaying' \<and> track_artist nowPlaying = track_artist nowPlaying'
        \<and> track_album nowPlaying = track_album nowPlaying'"
  proof -
    have s: "track_subpath zoneId (track_title nowPlaying') (track_artist nowPlaying') (track_album nowPlaying') = ?sub"
      using t by simp
    have 1: "generateTrackId objectPath p zoneId nowPlaying = generateTrackId objectPath p zoneId nowPlaying'"
      by (simp only: e s)
    have 2: "generateTrackId objectPath p zoneId nowPlaying = generateTrackId objectPath p' zoneId nowPlaying'"
      if "\<forall>s. objectPath p s = objectPath p' s"
      using that by (simp only: e s)
    have 3: "generateTrackId library_objectPath p zoneId nowPlaying
        = generateTrackId library_objectPath p' zoneId nowPlaying'" if "name p = name p'"
      unfolding e s by (rule library_objectPath_name [OF that])
    have 4: "generateTrackId library_objectPath (player context) zoneId nowPlaying
        = generateTrackId library_objectPath (player context') zoneId nowPlaying'"
      if "updatePlayerFromZone library_objectPath context = Inr context'"
      unfolding e s
      by (rule library_objectPath_name) (rule updatePlayerFromZone_name [OF that, symmetric])
    from 1 2 3 4 show ?thesis
      by (intro conjI impI)
  qed
  from e [of objectPath p nowPlaying] rest show ?thesis
    by blast
qed

theorem generateTrackId_pure_witness:
  "track_title living_room_now_playing
     = track_title (living_room_now_playing\<lparr>length_np := None, seek_position := Some 42, image_key := None\<rparr>)
   \<and> track_artist living_room_now_playing
     = track_artist (living_room_now_playing\<lparr>length_np := None, seek_position := Some 42, image_key := None\<rparr>)
   \<and> track_album living_room_now_playing
     = track_album (living_room_now_playing\<lparr>length_np := None, seek_position := Some 42, image_key := None\<rparr>)
   \<and> living_room_now_playing
     \<noteq> living_room_now_playing\<lparr>length_np := None, seek_position := Some 42, image_key := None\<rparr>
   \<and> updatePlayerFromZone library_objectPath (createPlayerContext living_room (js ''192.168.1.5:9100''))
     = Inr (projr (updatePlayerFromZone library_objectPath (createPlayerContext living_room (js ''192.168.1.5:9100''))))
   \<and> name (player (createPlayerContext living_room (js ''192.168.1.5:9100'')))
     = name (player (projr (updatePlayerFromZone library_objectPath
         (createPlayerContext living_room (js ''192.168.1.5:9100'')))))
   \<and> metadata (player (createPlayerContext living_room (js ''192.168.1.5:9100'')))
     \<noteq> metadata (player (projr (updatePlayerFromZone library_objectPath
         (createPlayerContext living_room (js ''192.168.1.5:9100'')))))
   \<and> generateTrackId library_objectPath (player (createPlayerContext living_room (js ''192.168.1.5:9100'')))
        (js ''z1'') living_room_now_playing
     = generateTrackId library_objectPath
        (player (projr (updatePlayerFromZone library_objectPath
           (createPlayerContext living_room (js ''192.168.1.5:9100'')))))
        (js ''z1'') (living_room_now_playing\<lparr>length_np := None, seek_position := Some 42, image_key := None\<rparr>)"
proof -
  let ?np = "living_room_now_playing\<lparr>length_np := None, seek_position := Some 42, image_key := None\<rparr>"
  let ?c = "createPlayerContext living_room (js ''192.168.1.5:9100'')"
  let ?c' = "projr (updatePlayerFromZone library_objectPath ?c)"
  have t: "track_title living_room_now_playing = track_title ?np"
    and a: "track_artist living_room_now_playing = track_artist ?np"
    and al: "track_album living_room_now_playing = track_album ?np"
    by (simp_all add: track_title_def track_artist_def track_album_def)
  have d: "living_room_now_playing \<noteq> ?np"
    by (simp add: living_room_now_playing_def)
  have u: "updatePlayerFromZone library_objectPath ?c = Inr ?c'"
    by (simp add: living_room_update)
  have n: "name (player ?c) = name (player ?c')"
    using updatePlayerFromZone_name [OF u] by simp
  have m0: "metadata (player ?c) = None"
    by (simp add: createPlayerContext_def Let_def)
  have "metadata (player ?c') \<noteq> None"
    unfolding living_room_update by simp
  then have m: "metadata (player ?c) \<noteq> metadata (player ?c')"
    unfolding m0 by (rule not_sym)
  have o: "\<forall>s. library_objectPath (player ?c) s = library_objectPath (player ?c') s"
    by (intro allI library_objectPath_name n)
  note r = generateTrackId_pure [of library_objectPath "player ?c" "js ''z1''" living_room_now_playing
      ?np "player ?c'" ?c ?c']
  from t a al have "track_title living_room_now_playing = track_title ?np
      \<and> track_artist living_room_now_playing = track_artist ?np
      \<and> track_album living_room_now_playing = track_album ?np"
    by (intro conjI)
  note r2 = r [THEN conjunct2, THEN mp, OF this]
  from o have "generateTrackId library_objectPath (player ?c) (js ''z1'') living_room_now_playing
      = generateTrackId library_objectPath (player ?c') (js ''z1'') ?np"
    by (rule r2 [THEN conjunct2, THEN conjunct1, THEN mp])
  from n have "generateTrackId library_objectPath (player ?c) (js ''z1'') living_room_now_playing
      = generateTrackId library_objectPath (player ?c') (js ''z1'') ?np"
    by (rule r2 [THEN conjunct2, THEN conjunct2, THEN conjunct1, THEN mp])
  from u have g: "generateTrackId library_objectPath (player ?c) (js ''z1'') living_room_now_playing
      = generateTrackId library_objectPath (player ?c') (js ''z1'') ?np"
    by (rule r2 [THEN conjunct2, THEN conjunct2, THEN conjunct2, THEN mp])
  from t a al d u n m g show ?thesis
    by (intro conjI)
qed

lemma no_three_line_throws:
  "now_playing (zone context) = Some np \<Longrightarrow> three_line np = None \<Longrightarrow>
   updatePlayerFromZone objectPath context = Inl TypeError \<and> updatePlayerFromZone_v1 context = Inl TypeError"
  by (simp add: updatePlayerFromZone_def updatePlayerFromZone_v1_def base_metadata_def
      base_metadata_v1_def Let_def)

lemma callback_add_throws:
  "core b = Some c \<Longrightarrow> ws_url c = Some url \<Longrightarrow> zones data = Some zs \<Longrightarrow>
   onZonesAdded objectPath (drop 5 url) b zs = (b', Some e) \<Longrightarrow>
   subscribe_zones_callback objectPath b data = (b', Some e)"
  by (simp add: subscribe_zones_callback_def Let_def)

text \<open>
  Claim C4 says that a now-playing record without \<open>three_line\<close> does not make the
  projection fail and that the fields that cannot be computed are left out. The program
  reads \<open>now_playing.three_line.line1\<close> unguarded: on such a zone the projection throws a
  TypeError in both revisions, and the error leaves the \<open>subscribe_zones\<close> callback.
\<close>

theorem missing_three_line_throws:
  "updatePlayerFromZone objectPath (createPlayerContext no_three_line_zone ws) = Inl TypeError
   \<and> updatePlayerFromZone_v1 (createPlayerContext no_three_line_zone ws) = Inl TypeError
   \<and> snd (subscribe_zones_callback objectPath paired_bridge (only_zones [no_three_line_zone])) = Some TypeError"
proof -
  have a: "now_playing (zone (createPlayerContext no_three_line_zone ws))
      = Some (living_room_now_playing\<lparr>three_line := None\<rparr>)" for ws
    by (simp add: createPlayerContext_def Let_def no_three_line_zone_def)
  have b: "three_line (living_room_now_playing\<lparr>three_line := None\<rparr>) = None"
    by simp
  have t: "updatePlayerFromZone objectPath (createPlayerContext no_three_line_zone ws) = Inl TypeError
      \<and> updatePlayerFromZone_v1 (createPlayerContext no_three_line_zone ws) = Inl TypeError" for ws
    by (rule no_three_line_throws [OF a b])
  have "snd (add_zone objectPath ws paired_bridge no_three_line_zone) = Some TypeError" for ws
    using t [of ws] by (simp add: add_zone_def paired_bridge_def Let_def)
  then have "snd (onZonesAdded objectPath (drop 5 (js ''ws://192.168.1.5:9100'')) paired_bridge [no_three_line_zone])
      = Some TypeError"
    by (simp add: onZonesAdded_single)
  then obtain b' where
    "onZonesAdded objectPath (drop 5 (js ''ws://192.168.1.5:9100'')) paired_bridge [no_three_line_zone]
      = (b', Some TypeError)"
    by (cases "onZonesAdded objectPath (drop 5 (js ''ws://192.168.1.5:9100'')) paired_bridge [no_three_line_zone]")
      simp
  then have "subscribe_zones_callback objectPath paired_bridge (only_zones [no_three_line_zone])
      = (b', Some TypeError)"
    by (intro callback_add_throws [where c = "\<lparr>ws_url = Some (js ''ws://192.168.1.5:9100'')\<rparr>"])
      (simp_all add: paired_bridge_def only_zones_def)
  with t show ?thesis by simp
qed

section \<open>Properties of the engine and the router\<close>

lemma living_room_context:
  "zonePlayerMap living_room_bridge (js ''z1'') =
     Some ((createPlayerContext living_room (js ''192.168.1.5:9100''))\<lparr>lastReportedPosition := 10000000\<rparr>)"
  by (simp add: living_room_bridge_def)

lemma seek_changed_known:
  "(zonePlayerMap (seek_changed b change) zoneId \<noteq> None) = (zonePlayerMap b zoneId \<noteq> None)"
  by (simp add: seek_changed_def Let_def split: option.splits)

lemma onZonesSeekChanged_known:
  "(zonePlayerMap (onZonesSeekChanged b changes) zoneId \<noteq> None) = (zonePlayerMap b zoneId \<noteq> None)"
  unfolding onZonesSeekChanged_def
proof (induction changes arbitrary: b)
  case Nil
  show ?case by simp
next
  case (Cons change changes)
  show ?case
    by (simp only: foldl_Cons Cons.IH seek_changed_known)
qed

lemma onZonesSeekChanged_split:
  "onZonesSeekChanged b0 (pre @ change # post)
     = onZonesSeekChanged (seek_changed (onZonesSeekChanged b0 pre) change) post"
  by (simp add: onZonesSeekChanged_def)

lemma callback_completes:
  assumes "core bi = Some c" and "ws_url c = Some url"
    and "onZonesAdded objectPath (drop 5 url) bi
           (case zones data of Some zs \<Rightarrow> zs
            | None \<Rightarrow> (case zones_added data of Some zs \<Rightarrow> zs | None \<Rightarrow> [])) = (b1, None)"
    and "(case zones_changed data of None \<Rightarrow> (b1, None)
          | Some zs \<Rightarrow> onZonesChanged objectPath b1 zs) = (b2, None)"
  shows "subscribe_zones_callback objectPath bi data =
     (let b3 = (case zones_removed data of None \<Rightarrow> b2 | Some ids \<Rightarrow> onZonesRemoved b2 ids)
      in (case zones_seek_changed data of None \<Rightarrow> b3 | Some cs \<Rightarrow> onZonesSeekChanged b3 cs), None)"
  using assms by (simp add: subscribe_zones_callback_def Let_def)

text \<open>
  Claim C1. For a seek-changed entry of a zone in the registry, with the new position in
  microseconds, the entry counts as a seek exactly when
  \<open>|new - (lastReportedPosition + 1500000)| > 2000000\<close>; whether it does or not, the
  context gets the new value as \<open>lastReportedPosition\<close> and the player gets it as
  \<open>position\<close>; the \<open>seeked\<close> notification (and its console line) is emitted exactly for a
  seek. The handler applies this to every entry of a batch in turn, each on the state its
  predecessors left (they keep the zone in the registry), and the callback ends with the
  state the handler gives whenever it passes the connection guard and the earlier branches
  of the payload complete. From 10000000, a report of 11 seconds is progress and a report
  of 30 seconds is a seek.
\<close>

theorem seek_classifier:
  assumes "zonePlayerMap b (change_zone_id change) = Some context"
  shows "seek_changed b change =
     (let positionMicro = change_seek_position change * 1000000;
          isSeek = (\<bar>positionMicro - (lastReportedPosition context + 1500000)\<bar> > 2000000)
      in b\<lparr>console := console b @
              (if isSeek then [Detected_seek (display_name (zone context)) (change_seek_position change)] else []),
           zonePlayerMap := (zonePlayerMap b)(change_zone_id change \<mapsto>
              context\<lparr>lastReportedPosition := positionMicro,
                      player := (player context)\<lparr>position := Some positionMicro,
                         seeked := seeked (player context) @ (if isSeek then [positionMicro] else [])\<rparr>\<rparr>)\<rparr>)
   \<and> (b = onZonesSeekChanged b0 pre \<longrightarrow>
        zonePlayerMap b0 (change_zone_id change) \<noteq> None
        \<and> onZonesSeekChanged b0 (pre @ change # post) = onZonesSeekChanged (seek_changed b change) post
        \<and> (core bi = Some c \<and> ws_url c = Some url
             \<and> onZonesAdded objectPath (drop 5 url) bi
                   (case zones data of Some zs \<Rightarrow> zs
                    | None \<Rightarrow> (case zones_added data of Some zs \<Rightarrow> zs | None \<Rightarrow> [])) = (b1, None)
             \<and> (case zones_changed data of None \<Rightarrow> (b1, None)
                  | Some zs \<Rightarrow> onZonesChanged objectPath b1 zs) = (b2, None)
             \<and> b0 = (case zones_removed data of None \<Rightarrow> b2 | Some ids \<Rightarrow> onZonesRemoved b2 ids)
             \<and> zones_seek_changed data = Some (pre @ change # post)
             \<longrightarrow> subscribe_zones_callback objectPath bi data
                   = (onZonesSeekChanged (seek_changed b change) post, None)))"
proof -
  have step: "seek_changed b change =
     (let positionMicro = change_seek_position change * 1000000;
          isSeek = (\<bar>positionMicro - (lastReportedPosition context + 1500000)\<bar> > 2000000)
      in b\<lparr>console := console b @
              (if isSeek then [Detected_seek (display_name (zone context)) (change_seek_position change)] else []),
           zonePlayerMap := (zonePlayerMap b)(change_zone_id change \<mapsto>
              context\<lparr>lastReportedPosition := positionMicro,
                      player := (player context)\<lparr>position := Some positionMicro,
                         seeked := seeked (player context) @ (if isSeek then [positionMicro] else [])\<rparr>\<rparr>)\<rparr>)"
    using assms by (simp add: seek_changed_def Let_def)
  have batch: "zonePlayerMap b0 (change_zone_id change) \<noteq> None
      \<and> onZonesSeekChanged b0 (pre @ change # post) = onZonesSeekChanged (seek_changed b change) post"
    if "b = onZonesSeekChanged b0 pre"
  proof -
    have "zonePlayerMap (onZonesSeekChanged b0 pre) (change_zone_id change) \<noteq> None"
      using assms that by simp
    then have "zonePlayerMap b0 (change_zone_id change) \<noteq> None"
      using onZonesSeekChanged_known [of b0 pre "change_zone_id change"] by blast
    then show ?thesis
      unfolding that by (simp add: onZonesSeekChanged_split)
  qed
  have cb: "subscribe_zones_callback objectPath bi data
      = (onZonesSeekChanged (seek_changed b change) post, None)"
    if "b = onZonesSeekChanged b0 pre" and "core bi = Some c" and "ws_url c = Some url"
      and "onZonesAdded objectPath (drop 5 url) bi
             (case zones data of Some zs \<Rightarrow> zs
              | None \<Rightarrow> (case zones_added data of Some zs \<Rightarrow> zs | None \<Rightarrow> [])) = (b1, None)"
      and "(case zones_changed data of None \<Rightarrow> (b1, None)
            | Some zs \<Rightarrow> onZonesChanged objectPath b1 zs) = (b2, None)"
      and "b0 = (case zones_removed data of None \<Rightarrow> b2 | Some ids \<Rightarrow> onZonesRemoved b2 ids)"
      and "zones_seek_changed data = Some (pre @ change # post)"
  proof -
    have "subscribe_zones_callback objectPath bi data = (onZonesSeekChanged b0 (pre @ change # post), None)"
      using callback_completes [OF that(2) that(3) that(4) that(5)] that(6) that(7)
      by (simp add: Let_def)
    then show ?thesis
      unfolding that(1) by (simp only: onZonesSeekChanged_split)
  qed
  from step batch cb show ?thesis
    by blast
qed

theorem seek_classifier_witness:
  "zonePlayerMap living_room_bridge (js ''z1'') =
     Some ((createPlayerContext living_room (js ''192.168.1.5:9100''))\<lparr>lastReportedPosition := 10000000\<rparr>)
   \<and> living_room_bridge = onZonesSeekChanged living_room_bridge []
   \<and> core living_room_bridge = Some \<lparr>ws_url = Some (js ''ws://192.168.1.5:9100'')\<rparr>
   \<and> onZonesAdded library_objectPath (drop 5 (js ''ws://192.168.1.5:9100'')) living_room_bridge []
       = (living_room_bridge, None)
   \<and> map_option (\<lambda>c. (lastReportedPosition c, position (player c), seeked (player c)))
        (zonePlayerMap (seek_changed living_room_bridge \<lparr>change_zone_id = js ''z1'', change_seek_position = 11\<rparr>) (js ''z1''))
       = Some (11000000, Some 11000000, [])
   \<and> map_option (\<lambda>c. (lastReportedPosition c, position (player c), seeked (player c)))
        (zonePlayerMap (seek_changed living_room_bridge \<lparr>change_zone_id = js ''z1'', change_seek_position = 30\<rparr>) (js ''z1''))
       = Some (30000000, Some 30000000, [30000000])
   \<and> onZonesSeekChanged living_room_bridge [\<lparr>change_zone_id = js ''z1'', change_seek_position = 30\<rparr>]
       = seek_changed living_room_bridge \<lparr>change_zone_id = js ''z1'', change_seek_position = 30\<rparr>
   \<and> subscribe_zones_callback library_objectPath living_room_bridge
        (only_seek_changed [\<lparr>change_zone_id = js ''z1'', change_seek_position = 11\<rparr>,
                            \<lparr>change_zone_id = js ''z1'', change_seek_position = 30\<rparr>])
       = (onZonesSeekChanged
            (seek_changed living_room_bridge \<lparr>change_zone_id = js ''z1'', change_seek_position = 11\<rparr>)
            [\<lparr>change_zone_id = js ''z1'', change_seek_position = 30\<rparr>], None)
   \<and> map_option (\<lambda>c. (lastReportedPosition c, position (player c), seeked (player c)))
        (zonePlayerMap (fst (subscribe_zones_callback library_objectPath living_room_bridge
           (only_seek_changed [\<lparr>change_zone_id = js ''z1'', change_seek_position = 11\<rparr>,
                               \<lparr>change_zone_id = js ''z1'', change_seek_position = 30\<rparr>]))) (js ''z1''))
       = Some (30000000, Some 30000000, [30000000])"
proof -
  let ?c = "(createPlayerContext living_room (js ''192.168.1.5:9100''))\<lparr>lastReportedPosition := 10000000\<rparr>"
  let ?e11 = "\<lparr>change_zone_id = js ''z1'', change_seek_position = 11\<rparr>"
  let ?e30 = "\<lparr>change_zone_id = js ''z1'', change_seek_position = 30\<rparr>"
  let ?core = "\<lparr>ws_url = Some (js ''ws://192.168.1.5:9100'')\<rparr>"
  have h1: "zonePlayerMap living_room_bridge (change_zone_id ?e11) = Some ?c"
    and h2: "zonePlayerMap living_room_bridge (change_zone_id ?e30) = Some ?c"
    by (simp_all add: living_room_context)
  have p: "living_room_bridge = onZonesSeekChanged living_room_bridge []"
    by (simp add: onZonesSeekChanged_def)
  have k: "core living_room_bridge = Some ?core"
    by (simp add: living_room_bridge_def paired_bridge_def)
  have a: "onZonesAdded library_objectPath (drop 5 (js ''ws://192.168.1.5:9100'')) living_room_bridge []
      = (living_room_bridge, None)"
    by (simp add: onZonesAdded_def)
  note t11 = seek_classifier [OF h1, of living_room_bridge "[]" "[?e30]" living_room_bridge ?core
      "js ''ws://192.168.1.5:9100''" library_objectPath "only_seek_changed [?e11, ?e30]"
      living_room_bridge living_room_bridge]
  note t30 = seek_classifier [OF h2, of living_room_bridge "[]" "[]" living_room_bridge ?core
      "js ''ws://192.168.1.5:9100''" library_objectPath "only_seek_changed [?e30]"
      living_room_bridge living_room_bridge]
  from t11 have s11: "map_option (\<lambda>c. (lastReportedPosition c, position (player c), seeked (player c)))
        (zonePlayerMap (seek_changed living_room_bridge ?e11) (js ''z1'')) = Some (11000000, Some 11000000, [])"
    by (simp add: createPlayerContext_def Let_def)
  from t30 have s30: "map_option (\<lambda>c. (lastReportedPosition c, position (player c), seeked (player c)))
        (zonePlayerMap (seek_changed living_room_bridge ?e30) (js ''z1'')) = Some (30000000, Some 30000000, [30000000])"
    by (simp add: createPlayerContext_def Let_def)
  from t30 p have l30: "onZonesSeekChanged living_room_bridge [?e30] = seek_changed living_room_bridge ?e30"
    by (simp add: onZonesSeekChanged_def)
  from t11 p k a have cb: "subscribe_zones_callback library_objectPath living_room_bridge
        (only_seek_changed [?e11, ?e30])
       = (onZonesSeekChanged (seek_changed living_room_bridge ?e11) [?e30], None)"
    by (simp add: only_seek_changed_def)
  have "map_option (\<lambda>c. (lastReportedPosition c, position (player c), seeked (player c)))
        (zonePlayerMap (onZonesSeekChanged (seek_changed living_room_bridge ?e11) [?e30]) (js ''z1''))
       = Some (30000000, Some 30000000, [30000000])"
    by (simp add: onZonesSeekChanged_def seek_changed_def living_room_context createPlayerContext_def Let_def)
  then have f: "map_option (\<lambda>c. (lastReportedPosition c, position (player c), seeked (player c)))
        (zonePlayerMap (fst (subscribe_zones_callback library_objectPath living_room_bridge
           (only_seek_changed [?e11, ?e30]))) (js ''z1''))
       = Some (30000000, Some 30000000, [30000000])"
    by (simp only: cb fst_conv)
  from living_room_context p k a s11 s30 l30 cb f show ?thesis
    by (intro conjI)
qed

lemma add_zone_other:
  assumes "zone_id x \<noteq> zoneId"
  shows "zonePlayerMap (fst (add_zone objectPath ws b x)) zoneId = zonePlayerMap b zoneId"
    and "players_for (fst (add_zone objectPath ws b x)) zoneId = players_for b zoneId"
  using assms by (auto simp: add_zone_def players_for_def Let_def split: sum.splits)

lemma add_zone_frame:
  assumes "zonePlayerMap b zoneId \<noteq> None"
  shows "zonePlayerMap (fst (add_zone objectPath ws b x)) zoneId = zonePlayerMap b zoneId"
    and "players_for (fst (add_zone objectPath ws b x)) zoneId = players_for b zoneId"
proof -
  show "zonePlayerMap (fst (add_zone objectPath ws b x)) zoneId = zonePlayerMap b zoneId"
  proof (cases "zone_id x = zoneId")
    case True
    with assms show ?thesis by (simp add: add_zone_known)
  next
    case False
    then show ?thesis by (rule add_zone_other)
  qed
  show "players_for (fst (add_zone objectPath ws b x)) zoneId = players_for b zoneId"
  proof (cases "zone_id x = zoneId")
    case True
    with assms show ?thesis by (simp add: add_zone_known)
  next
    case False
    then show ?thesis by (rule add_zone_other)
  qed
qed

lemma onZonesAdded_Cons:
  "onZonesAdded objectPath ws b (x # zs) =
     (if snd (add_zone objectPath ws b x) = None
      then onZonesAdded objectPath ws (fst (add_zone objectPath ws b x)) zs
      else add_zone objectPath ws b x)"
  by (cases "add_zone objectPath ws b x") (auto simp: onZonesAdded_def split: option.splits)

lemma onZonesAdded_frame:
  "zonePlayerMap b zoneId \<noteq> None \<Longrightarrow>
   zonePlayerMap (fst (onZonesAdded objectPath ws b zs)) zoneId = zonePlayerMap b zoneId
   \<and> players_for (fst (onZonesAdded objectPath ws b zs)) zoneId = players_for b zoneId"
proof (induction zs arbitrary: b)
  case Nil
  show ?case by (simp add: onZonesAdded_def)
next
  case (Cons x zs)
  let ?b' = "fst (add_zone objectPath ws b x)"
  have f: "zonePlayerMap ?b' zoneId = zonePlayerMap b zoneId" "players_for ?b' zoneId = players_for b zoneId"
    using Cons.prems by (rule add_zone_frame)+
  then have "zonePlayerMap ?b' zoneId \<noteq> None"
    using Cons.prems by simp
  then have "zonePlayerMap (fst (onZonesAdded objectPath ws ?b' zs)) zoneId = zonePlayerMap ?b' zoneId
      \<and> players_for (fst (onZonesAdded objectPath ws ?b' zs)) zoneId = players_for ?b' zoneId"
    by (rule Cons.IH)
  with f show ?case
    by (simp add: onZonesAdded_Cons)
qed

lemma onZonesAdded_all_known:
  "\<forall>x \<in> set zs. zonePlayerMap b (zone_id x) \<noteq> None \<Longrightarrow> onZonesAdded objectPath ws b zs = (b, None)"
  by (induction zs) (simp_all add: onZonesAdded_def add_zone_known)

lemma onZonesAdded_completes:
  "snd (onZonesAdded objectPath ws b zs) = None \<Longrightarrow> z \<in> set zs \<Longrightarrow>
   zonePlayerMap (fst (onZonesAdded objectPath ws b zs)) (zone_id z) \<noteq> None
   \<and> (zonePlayerMap b (zone_id z) = None \<longrightarrow>
        players_for (fst (onZonesAdded objectPath ws b zs)) (zone_id z) = players_for b (zone_id z) + 1)"
proof (induction zs arbitrary: b)
  case Nil
  then show ?case by simp
next
  case (Cons x zs)
  let ?b' = "fst (add_zone objectPath ws b x)"
  have ok: "snd (add_zone objectPath ws b x) = None"
    using Cons.prems(1) by (auto simp: onZonesAdded_Cons split: if_splits)
  then have rest: "onZonesAdded objectPath ws b (x # zs) = onZonesAdded objectPath ws ?b' zs"
    by (simp add: onZonesAdded_Cons)
  show ?case
  proof (cases "zone_id x = zone_id z")
    case True
    have k: "zonePlayerMap ?b' (zone_id z) \<noteq> None"
      using add_zone_makes_known [of objectPath ws b x] True by simp
    have fr: "zonePlayerMap (fst (onZonesAdded objectPath ws ?b' zs)) (zone_id z) = zonePlayerMap ?b' (zone_id z)
        \<and> players_for (fst (onZonesAdded objectPath ws ?b' zs)) (zone_id z) = players_for ?b' (zone_id z)"
      using k by (rule onZonesAdded_frame)
    have "players_for ?b' (zone_id z) = players_for b (zone_id z) + 1" if "zonePlayerMap b (zone_id z) = None"
      using that True add_zone_constructed [of b x objectPath ws]
      by (simp add: players_for_def)
    with k fr show ?thesis
      by (simp add: rest)
  next
    case False
    then have z: "z \<in> set zs"
      using Cons.prems(2) by auto
    have s: "snd (onZonesAdded objectPath ws ?b' zs) = None"
      using Cons.prems(1) by (simp add: rest)
    have o: "zonePlayerMap ?b' (zone_id z) = zonePlayerMap b (zone_id z)"
      "players_for ?b' (zone_id z) = players_for b (zone_id z)"
      using False by (rule add_zone_other)+
    from Cons.IH [OF s z] o show ?thesis
      by (simp add: rest)
  qed
qed

lemma living_room_added:
  "snd (add_zone objectPath (js ''192.168.1.5:9100'') paired_bridge living_room) = None"
  by (simp add: add_zone_def Let_def living_room_update paired_bridge_def)

text \<open>
  Claim C7. Adding a zone whose identifier is known changes nothing. For one-zone batches:
  after a first add of a zone, a second add with the same identifier (whatever else the
  snapshot holds) returns the state of the first without error, the identifier has a
  context, and if it was new the two adds constructed exactly one player for it. For any
  batch: if every identifier in it is known the add returns the state unchanged; a known
  identifier keeps its context and its number of players through any batch; and after a
  batch that holds a zone and completes, the zone has a context, a further batch with the
  same identifier leaves that context and the number of players as they are, and a new
  identifier has got exactly one player.
\<close>

theorem onZonesAdded_idempotent:
  assumes "zone_id z' = zone_id z"
  shows "onZonesAdded objectPath ws' (fst (onZonesAdded objectPath ws b [z])) [z']
           = (fst (onZonesAdded objectPath ws b [z]), None)
       \<and> zonePlayerMap (fst (onZonesAdded objectPath ws b [z])) (zone_id z) \<noteq> None
       \<and> (zonePlayerMap b (zone_id z) = None \<longrightarrow>
            constructed (fst (onZonesAdded objectPath ws' (fst (onZonesAdded objectPath ws b [z])) [z']))
              = constructed b @ [(zone_id z, js ''roon_'' @ sanitizeForDBus (display_name z))])
       \<and> (zonePlayerMap b (zone_id z) \<noteq> None \<longrightarrow> onZonesAdded objectPath ws b [z] = (b, None))
       \<and> ((\<forall>x \<in> set zs. zonePlayerMap b (zone_id x) \<noteq> None) \<longrightarrow>
            onZonesAdded objectPath ws b zs = (b, None))
       \<and> (zonePlayerMap b (zone_id z) \<noteq> None \<longrightarrow>
            zonePlayerMap (fst (onZonesAdded objectPath ws b zs)) (zone_id z) = zonePlayerMap b (zone_id z)
            \<and> players_for (fst (onZonesAdded objectPath ws b zs)) (zone_id z) = players_for b (zone_id z))
       \<and> (z \<in> set zs \<and> z' \<in> set zs' \<and> snd (onZonesAdded objectPath ws b zs) = None \<longrightarrow>
            (let b1 = fst (onZonesAdded objectPath ws b zs);
                 b2 = fst (onZonesAdded objectPath ws' b1 zs')
             in zonePlayerMap b1 (zone_id z) \<noteq> None
                \<and> zonePlayerMap b2 (zone_id z) = zonePlayerMap b1 (zone_id z)
                \<and> players_for b2 (zone_id z) = players_for b1 (zone_id z)
                \<and> (zonePlayerMap b (zone_id z) = None \<longrightarrow>
                     players_for b2 (zone_id z) = players_for b (zone_id z) + 1)))"
proof -
  let ?b1 = "fst (onZonesAdded objectPath ws b [z])"
  have k: "zonePlayerMap ?b1 (zone_id z') \<noteq> None"
    unfolding assms onZonesAdded_single by (rule add_zone_makes_known)
  then have d: "onZonesAdded objectPath ws' ?b1 [z'] = (?b1, None)"
    unfolding onZonesAdded_single [of objectPath ws' ?b1 z'] by (rule add_zone_known)
  have c: "zonePlayerMap b (zone_id z) = None \<longrightarrow>
      constructed ?b1 = constructed b @ [(zone_id z, js ''roon_'' @ sanitizeForDBus (display_name z))]"
    unfolding onZonesAdded_single by (simp add: add_zone_constructed)
  have n: "zonePlayerMap b (zone_id z) \<noteq> None \<longrightarrow> onZonesAdded objectPath ws b [z] = (b, None)"
    unfolding onZonesAdded_single by (simp add: add_zone_known)
  have single: "onZonesAdded objectPath ws' ?b1 [z'] = (?b1, None)
       \<and> zonePlayerMap ?b1 (zone_id z) \<noteq> None
       \<and> (zonePlayerMap b (zone_id z) = None \<longrightarrow>
            constructed (fst (onZonesAdded objectPath ws' ?b1 [z']))
              = constructed b @ [(zone_id z, js ''roon_'' @ sanitizeForDBus (display_name z))])
       \<and> (zonePlayerMap b (zone_id z) \<noteq> None \<longrightarrow> onZonesAdded objectPath ws b [z] = (b, None))"
    using k d c n by (simp add: assms)
  have known: "(\<forall>x \<in> set zs. zonePlayerMap b (zone_id x) \<noteq> None) \<longrightarrow>
      onZonesAdded objectPath ws b zs = (b, None)"
    by (simp add: onZonesAdded_all_known)
  have frame: "zonePlayerMap b (zone_id z) \<noteq> None \<longrightarrow>
      zonePlayerMap (fst (onZonesAdded objectPath ws b zs)) (zone_id z) = zonePlayerMap b (zone_id z)
      \<and> players_for (fst (onZonesAdded objectPath ws b zs)) (zone_id z) = players_for b (zone_id z)"
    using onZonesAdded_frame [of b "zone_id z" objectPath ws zs] by blast
  have twice: "z \<in> set zs \<and> z' \<in> set zs' \<and> snd (onZonesAdded objectPath ws b zs) = None \<longrightarrow>
      (let b1 = fst (onZonesAdded objectPath ws b zs);
           b2 = fst (onZonesAdded objectPath ws' b1 zs')
       in zonePlayerMap b1 (zone_id z) \<noteq> None
          \<and> zonePlayerMap b2 (zone_id z) = zonePlayerMap b1 (zone_id z)
          \<and> players_for b2 (zone_id z) = players_for b1 (zone_id z)
          \<and> (zonePlayerMap b (zone_id z) = None \<longrightarrow>
               players_for b2 (zone_id z) = players_for b (zone_id z) + 1))"
  proof (intro impI)
    assume h: "z \<in> set zs \<and> z' \<in> set zs' \<and> snd (onZonesAdded objectPath ws b zs) = None"
    let ?c1 = "fst (onZonesAdded objectPath ws b zs)"
    let ?c2 = "fst (onZonesAdded objectPath ws' ?c1 zs')"
    from h have first: "zonePlayerMap ?c1 (zone_id z) \<noteq> None
        \<and> (zonePlayerMap b (zone_id z) = None \<longrightarrow> players_for ?c1 (zone_id z) = players_for b (zone_id z) + 1)"
      using onZonesAdded_completes [of objectPath ws b zs z] by blast
    then have second: "zonePlayerMap ?c2 (zone_id z) = zonePlayerMap ?c1 (zone_id z)
        \<and> players_for ?c2 (zone_id z) = players_for ?c1 (zone_id z)"
      using onZonesAdded_frame [of ?c1 "zone_id z" objectPath ws' zs'] by blast
    from first second show "(let b1 = ?c1; b2 = fst (onZonesAdded objectPath ws' b1 zs')
       in zonePlayerMap b1 (zone_id z) \<noteq> None
          \<and> zonePlayerMap b2 (zone_id z) = zonePlayerMap b1 (zone_id z)
          \<and> players_for b2 (zone_id z) = players_for b1 (zone_id z)
          \<and> (zonePlayerMap b (zone_id z) = None \<longrightarrow>
               players_for b2 (zone_id z) = players_for b (zone_id z) + 1))"
      unfolding Let_def by simp
  qed
  from single known frame twice show ?thesis
    by (intro conjI) blast+
qed

theorem onZonesAdded_idempotent_witness:
  "zone_id kitchen = zone_id living_room
   \<and> zonePlayerMap paired_bridge (js ''z1'') = None
   \<and> players_for paired_bridge (js ''z1'') = 0
   \<and> snd (onZonesAdded library_objectPath (js ''192.168.1.5:9100'') paired_bridge [living_room, kitchen]) = None
   \<and> zonePlayerMap (fst (onZonesAdded library_objectPath (js ''192.168.1.5:9100'') paired_bridge
        [living_room, kitchen])) (js ''z1'') \<noteq> None
   \<and> zonePlayerMap (fst (onZonesAdded library_objectPath (js ''10.0.0.2:9100'')
        (fst (onZonesAdded library_objectPath (js ''192.168.1.5:9100'') paired_bridge [living_room, kitchen]))
        [kitchen, living_room])) (js ''z1'')
       = zonePlayerMap (fst (onZonesAdded library_objectPath (js ''192.168.1.5:9100'') paired_bridge
        [living_room, kitchen])) (js ''z1'')
   \<and> players_for (fst (onZonesAdded library_objectPath (js ''10.0.0.2:9100'')
        (fst (onZonesAdded library_objectPath (js ''192.168.1.5:9100'') paired_bridge [living_room, kitchen]))
        [kitchen, living_room])) (js ''z1'') = 1
   \<and> onZonesAdded library_objectPath (js ''10.0.0.2:9100'')
        (fst (onZonesAdded library_objectPath (js ''192.168.1.5:9100'') paired_bridge [living_room])) [kitchen]
       = (fst (onZonesAdded library_objectPath (js ''192.168.1.5:9100'') paired_bridge [living_room]), None)
   \<and> constructed (fst (onZonesAdded library_objectPath (js ''10.0.0.2:9100'')
        (fst (onZonesAdded library_objectPath (js ''192.168.1.5:9100'') paired_bridge [living_room])) [kitchen]))
       = [(js ''z1'', js ''roon_Living_Room'')]
   \<and> zonePlayerMap living_room_bridge (js ''z1'') \<noteq> None
   \<and> onZonesAdded library_objectPath (js ''10.0.0.2:9100'') living_room_bridge [kitchen, living_room]
       = (living_room_bridge, None)"
proof -
  let ?ws = "js ''192.168.1.5:9100''"
  let ?ws' = "js ''10.0.0.2:9100''"
  let ?b1 = "fst (onZonesAdded library_objectPath ?ws paired_bridge [living_room, kitchen])"
  let ?s1 = "fst (onZonesAdded library_objectPath ?ws paired_bridge [living_room])"
  have h: "zone_id kitchen = zone_id living_room"
    by (simp add: kitchen_def)
  have l: "zone_id living_room = js ''z1''" "display_name living_room = js ''Living Room''"
    by (simp_all add: living_room_def)
  have e: "zonePlayerMap paired_bridge (zone_id living_room) = None" "constructed paired_bridge = []"
    "players_for paired_bridge (zone_id living_room) = 0"
    by (simp_all add: paired_bridge_def players_for_def)
  have k: "zonePlayerMap (fst (add_zone library_objectPath ?ws paired_bridge living_room)) (zone_id kitchen) \<noteq> None"
    unfolding h by (rule add_zone_makes_known)
  have o1: "onZonesAdded library_objectPath ?ws paired_bridge [living_room, kitchen]
      = onZonesAdded library_objectPath ?ws (fst (add_zone library_objectPath ?ws paired_bridge living_room)) [kitchen]"
    by (simp add: onZonesAdded_Cons [of _ _ _ living_room] living_room_added)
  have o2: "onZonesAdded library_objectPath ?ws (fst (add_zone library_objectPath ?ws paired_bridge living_room)) [kitchen]
      = (fst (add_zone library_objectPath ?ws paired_bridge living_room), None)"
    unfolding onZonesAdded_single using k by (rule add_zone_known)
  have ok: "snd (onZonesAdded library_objectPath ?ws paired_bridge [living_room, kitchen]) = None"
    by (simp only: o1 o2 snd_conv)
  have m: "living_room \<in> set [living_room, kitchen]" "kitchen \<in> set [kitchen, living_room]"
    by simp_all
  note r = onZonesAdded_idempotent [OF h, of library_objectPath ?ws' ?ws paired_bridge
      "[living_room, kitchen]" "[kitchen, living_room]"]
  from r have r1: "onZonesAdded library_objectPath ?ws' ?s1 [kitchen] = (?s1, None)"
    by (rule conjunct1)
  from e(1) have r3: "constructed (fst (onZonesAdded library_objectPath ?ws' ?s1 [kitchen]))
      = constructed paired_bridge @ [(zone_id living_room, js ''roon_'' @ sanitizeForDBus (display_name living_room))]"
    by (rule r [THEN conjunct2, THEN conjunct2, THEN conjunct1, THEN mp])
  have r4: "constructed (fst (onZonesAdded library_objectPath ?ws' ?s1 [kitchen]))
      = [(js ''z1'', js ''roon_Living_Room'')]"
    unfolding r3 by (simp add: e l sanitize_living_room js_append)
  from m ok have "living_room \<in> set [living_room, kitchen] \<and> kitchen \<in> set [kitchen, living_room]
      \<and> snd (onZonesAdded library_objectPath ?ws paired_bridge [living_room, kitchen]) = None"
    by (intro conjI)
  note t = r [THEN conjunct2, THEN conjunct2, THEN conjunct2, THEN conjunct2, THEN conjunct2,
      THEN conjunct2, THEN mp, OF this, unfolded Let_def]
  from t have t1: "zonePlayerMap ?b1 (js ''z1'') \<noteq> None"
    unfolding l by (rule conjunct1)
  from t have t2: "zonePlayerMap (fst (onZonesAdded library_objectPath ?ws' ?b1 [kitchen, living_room])) (js ''z1'')
      = zonePlayerMap ?b1 (js ''z1'')"
    unfolding l by (rule conjunct2 [THEN conjunct1])
  from e(1) have "players_for (fst (onZonesAdded library_objectPath ?ws' ?b1 [kitchen, living_room])) (zone_id living_room)
      = players_for paired_bridge (zone_id living_room) + 1"
    by (rule t [THEN conjunct2, THEN conjunct2, THEN conjunct2, THEN mp])
  moreover have "players_for paired_bridge (js ''z1'') = 0"
    by (simp add: paired_bridge_def players_for_def)
  ultimately have t3: "players_for (fst (onZonesAdded library_objectPath ?ws' ?b1 [kitchen, living_room])) (js ''z1'') = 1"
    by (simp add: l)
  have q: "zonePlayerMap living_room_bridge (zone_id living_room) \<noteq> None"
    "\<forall>x \<in> set [kitchen, living_room]. zonePlayerMap living_room_bridge (zone_id x) \<noteq> None"
    by (simp_all add: l h living_room_context)
  note r' = onZonesAdded_idempotent [OF h, of library_objectPath ?ws' ?ws' living_room_bridge
      "[kitchen, living_room]" "[kitchen]"]
  from q(2) have u': "onZonesAdded library_objectPath ?ws' living_room_bridge [kitchen, living_room]
      = (living_room_bridge, None)"
    by (rule r' [THEN conjunct2, THEN conjunct2, THEN conjunct2, THEN conjunct2, THEN conjunct1, THEN mp])
  from q(1) have "zonePlayerMap (fst (onZonesAdded library_objectPath ?ws' living_room_bridge [kitchen, living_room]))
        (zone_id living_room) = zonePlayerMap living_room_bridge (zone_id living_room)
      \<and> players_for (fst (onZonesAdded library_objectPath ?ws' living_room_bridge [kitchen, living_room]))
        (zone_id living_room) = players_for living_room_bridge (zone_id living_room)"
    by (rule r' [THEN conjunct2, THEN conjunct2, THEN conjunct2, THEN conjunct2, THEN conjunct2,
        THEN conjunct1, THEN mp])
  from q(1) have "onZonesAdded library_objectPath ?ws' living_room_bridge [living_room] = (living_room_bridge, None)"
    by (rule r' [THEN conjunct2, THEN conjunct2, THEN conjunct2, THEN conjunct1, THEN mp])
  from q(1) have q1: "zonePlayerMap living_room_bridge (js ''z1'') \<noteq> None"
    by (simp add: l)
  from e(1) have e1: "zonePlayerMap paired_bridge (js ''z1'') = None"
    by (simp add: l)
  from e(3) have e3: "players_for paired_bridge (js ''z1'') = 0"
    by (simp add: l)
  from h e1 e3 ok t1 t2 t3 r1 r4 q1 u' show ?thesis
    by (intro conjI)
qed

text \<open>
  The guard is what holds a seek back: with the core paired and seeking allowed, the
  handler issues the upstream call.
\<close>

lemma seek_allowed_issues_call:
  assumes "zonePlayerMap b zoneId = Some context" and "core b \<noteq> None"
    and "is_seek_allowed (zone context)"
  shows "upstream (on_seek b zoneId offset) = upstream b @ [Seek (zone context) relative offset]"
    and "upstream (on_position b zoneId event_position)
           = upstream b @ [Seek (zone context) absolute event_position]"
  using assms by (simp_all add: on_seek_def on_position_def)

text \<open>
  Claim C8. A relative seek or a set-position event for a zone whose snapshot has
  \<open>is_seek_allowed = false\<close> writes one console line and does nothing else: no upstream
  seek call is issued, and the registry, with every player and its \<open>seeked\<close>
  notifications, is as before.
\<close>

theorem seek_disallowed_dropped:
  assumes "zonePlayerMap b zoneId = Some context" and "\<not> is_seek_allowed (zone context)"
  shows "on_seek b zoneId offset =
           b\<lparr>console := console b @ [if core b = None then Seek_ignored (Some (display_name (zone context)))
                                      else Seek_not_allowed (display_name (zone context))]\<rparr>
       \<and> on_position b zoneId event_position =
           b\<lparr>console := console b @ [if core b = None then SetPosition_ignored (Some (display_name (zone context)))
                                      else Seek_not_allowed (display_name (zone context))]\<rparr>
       \<and> upstream (on_seek b zoneId offset) = upstream b
       \<and> upstream (on_position b zoneId event_position) = upstream b
       \<and> zonePlayerMap (on_seek b zoneId offset) = zonePlayerMap b
       \<and> zonePlayerMap (on_position b zoneId event_position) = zonePlayerMap b"
  using assms by (simp add: on_seek_def on_position_def)

theorem seek_disallowed_dropped_witness:
  "zonePlayerMap living_room_bridge (js ''z1'') =
     Some ((createPlayerContext living_room (js ''192.168.1.5:9100''))\<lparr>lastReportedPosition := 10000000\<rparr>)
   \<and> \<not> is_seek_allowed (zone ((createPlayerContext living_room (js ''192.168.1.5:9100''))\<lparr>lastReportedPosition := 10000000\<rparr>))
   \<and> on_seek living_room_bridge (js ''z1'') 5000000 =
       living_room_bridge\<lparr>console := [Seek_not_allowed (js ''Living Room'')]\<rparr>
   \<and> on_position living_room_bridge (js ''z1'') 60000000 =
       living_room_bridge\<lparr>console := [Seek_not_allowed (js ''Living Room'')]\<rparr>
   \<and> upstream (on_seek living_room_bridge (js ''z1'') 5000000) = []
   \<and> upstream (on_position living_room_bridge (js ''z1'') 60000000) = []"
proof -
  let ?c = "(createPlayerContext living_room (js ''192.168.1.5:9100''))\<lparr>lastReportedPosition := 10000000\<rparr>"
  have h1: "zonePlayerMap living_room_bridge (js ''z1'') = Some ?c"
    by (rule living_room_context)
  have h2: "\<not> is_seek_allowed (zone ?c)"
    by (simp add: createPlayerContext_def living_room_def Let_def)
  have d: "display_name (zone (createPlayerContext living_room (js ''192.168.1.5:9100''))) = js ''Living Room''"
    by (simp add: createPlayerContext_def living_room_def Let_def)
  have e: "core living_room_bridge \<noteq> None" "console living_room_bridge = []" "upstream living_room_bridge = []"
    by (simp_all add: living_room_bridge_def paired_bridge_def)
  show ?thesis
    using h1 h2 seek_disallowed_dropped [OF h1 h2, of 5000000 60000000]
    by (simp add: d e)
qed

lemma remove_zone_unknown: "zonePlayerMap b zoneId = None \<Longrightarrow> remove_zone b zoneId = b"
  by (simp add: remove_zone_def)

lemma onZonesRemoved_all_unknown:
  "\<forall>zoneId \<in> set zoneIds. zonePlayerMap b zoneId = None \<Longrightarrow> onZonesRemoved b zoneIds = b"
  unfolding onZonesRemoved_def
  by (induction zoneIds) (simp_all add: remove_zone_unknown)

text \<open>
  Claim C9. Removing identifiers that are not in the registry is a no-op: the removal
  loop returns the state it was given, and a callback whose payload holds only such a
  removal list ends without error in the same state.
\<close>

theorem onZonesRemoved_unknown:
  assumes "\<forall>zoneId \<in> set zoneIds. zonePlayerMap b zoneId = None"
  shows "onZonesRemoved b zoneIds = b
       \<and> subscribe_zones_callback objectPath b (only_removed zoneIds) = (b, None)"
proof -
  have r: "onZonesRemoved b zoneIds = b"
    using assms by (rule onZonesRemoved_all_unknown)
  have "subscribe_zones_callback objectPath b (only_removed zoneIds) = (b, None)"
    by (simp add: subscribe_zones_callback_def only_removed_def onZonesAdded_def r Let_def
        split: option.splits)
  with r show ?thesis by simp
qed

theorem onZonesRemoved_unknown_witness:
  "zonePlayerMap living_room_bridge (js ''z9'') = None
   \<and> zonePlayerMap living_room_bridge (js ''z'') = None
   \<and> zonePlayerMap living_room_bridge (js ''z1'') \<noteq> None
   \<and> onZonesRemoved living_room_bridge [js ''z9'', js ''z''] = living_room_bridge
   \<and> subscribe_zones_callback library_objectPath living_room_bridge (only_removed [js ''z9'', js ''z''])
       = (living_room_bridge, None)"
proof -
  have h: "\<forall>zoneId \<in> set [js ''z9'', js ''z'']. zonePlayerMap living_room_bridge zoneId = None"
    by (simp add: living_room_bridge_def js_def)
  show ?thesis
    using h onZonesRemoved_unknown [OF h, of library_objectPath]
    by (simp add: living_room_context)
qed

text \<open>
  Claim C10. The position getter returns 0 when the zone identifier is not in the registry
  or the stored snapshot has no now-playing record; otherwise it returns the seek position
  of the snapshot times 1000000, which is \<open>NaN\<close> when the record has no seek position.
  It is total: no input makes it throw.
\<close>

theorem getPosition_value:
  "getPosition b zoneId =
     (case zonePlayerMap b zoneId of
        None \<Rightarrow> Num 0
      | Some context \<Rightarrow>
          (case now_playing (zone context) of
             None \<Rightarrow> Num 0
           | Some np \<Rightarrow> (case seek_position np of None \<Rightarrow> NaN | Some s \<Rightarrow> Num (s * 1000000))))"
  by (simp add: getPosition_def num_prop_def split: option.splits)

end
